theory Spec2Isabelle
  imports Complex_Main
begin

section \<open>Data model\<close>

text \<open>
  The simulation stores coordinates as C++ \<^verbatim>\<open>double\<close> (and \<^verbatim>\<open>float\<close> in the
  graphics code).  A finite floating-point number is a real number, and the model
  keeps it as one; infinities and NaN are outside the model.  The operations on such
  numbers round, so the functions that compute with them take the arithmetic as a
  parameter (section "Machine arithmetic"): the machine's own operations, whatever
  they are, or the exact operations on \<^typ>\<open>real\<close> where a statement is about the
  idealisation.  Comparisons of finite numbers are exact.
\<close>

text \<open>\<^verbatim>\<open>Coordinate.h\<close>: a pair \<^verbatim>\<open>{x, y}\<close> (x = longitude, y = latitude), compared
  field by field.\<close>

record Coordinate =
  c_x :: real
  c_y :: real

text \<open>\<^verbatim>\<open>Passenger.h\<close>: the fields the vehicle code reads or writes.\<close>

record Passenger =
  p_id :: int
  p_start :: Coordinate
  p_dest :: Coordinate
  p_position :: Coordinate

datatype VehicleState =
  no_passenger_requested | no_passenger_queued | passenger_queued
  | driving_passenger | waiting

text \<open>\<^verbatim>\<open>Vehicle.h\<close>: the private members \<^verbatim>\<open>id_\<close>, \<^verbatim>\<open>position_\<close>,
  \<^verbatim>\<open>destination_\<close>, \<^verbatim>\<open>path_\<close>, \<^verbatim>\<open>path_index_\<close>, \<^verbatim>\<open>passenger_\<close>, \<^verbatim>\<open>state_\<close>
  and \<^verbatim>\<open>failures_\<close>; a field is written \<open>v_name\<close> for the member \<^verbatim>\<open>name_\<close>.  The
  \<^verbatim>\<open>shared_ptr<Passenger>\<close> is an optional passenger, \<open>None\<close> for the null pointer.\<close>

record Vehicle =
  v_id :: int
  v_position :: Coordinate
  v_destination :: Coordinate
  v_path :: "Coordinate list"
  v_path_index :: int
  v_passenger :: "Passenger option"
  v_state :: VehicleState
  v_failures :: int

text \<open>What a call can raise: \<^verbatim>\<open>std::out_of_range\<close> from \<^verbatim>\<open>vector::at\<close>, and the
  dereference of a null \<^verbatim>\<open>shared_ptr\<close> or raw pointer.\<close>

datatype error = out_of_range | null_pointer

section \<open>Machine arithmetic\<close>

text \<open>The floating-point operations the code uses, as functions on the numbers they
  work on: \<^verbatim>\<open>+\<close>, \<^verbatim>\<open>-\<close>, \<^verbatim>\<open>*\<close>, \<^verbatim>\<open>/\<close>, \<^verbatim>\<open>std::sqrt\<close>, \<^verbatim>\<open>std::pow(x, 2)\<close>,
  \<^verbatim>\<open>std::atan2\<close>, \<^verbatim>\<open>std::cos\<close>, \<^verbatim>\<open>std::sin\<close>, and the conversion of a number of
  another type (an \<^verbatim>\<open>int\<close>, a number of another width) to the format.\<close>

record Arithmetic =
  f_add :: "real \<Rightarrow> real \<Rightarrow> real"
  f_sub :: "real \<Rightarrow> real \<Rightarrow> real"
  f_mul :: "real \<Rightarrow> real \<Rightarrow> real"
  f_div :: "real \<Rightarrow> real \<Rightarrow> real"
  f_sqrt :: "real \<Rightarrow> real"
  f_pow2 :: "real \<Rightarrow> real"
  f_atan2 :: "real \<Rightarrow> real \<Rightarrow> real"
  f_cos :: "real \<Rightarrow> real"
  f_sin :: "real \<Rightarrow> real"
  f_conv :: "real \<Rightarrow> real"

text \<open>\<^verbatim>\<open>std::atan2\<close> on reals: the angle in \<open>(-\<pi>, \<pi>]\<close> of the point \<open>(x, y)\<close>, and 0
  at the origin.\<close>

definition atan2 :: "real \<Rightarrow> real \<Rightarrow> real" where
  "atan2 y x =
     (if 0 < x then arctan (y / x)
      else if x < 0 \<and> 0 \<le> y then arctan (y / x) + pi
      else if x < 0 then arctan (y / x) - pi
      else if 0 < y then pi / 2
      else if y < 0 then - (pi / 2)
      else 0)"

text \<open>Exact arithmetic: no rounding.\<close>

definition exact :: Arithmetic where
  "exact = \<lparr>f_add = (+), f_sub = (-), f_mul = (*), f_div = (/), f_sqrt = sqrt,
     f_pow2 = (\<lambda>x. x\<^sup>2), f_atan2 = atan2, f_cos = cos, f_sin = sin, f_conv = (\<lambda>x. x)\<rparr>"

text \<open>IEEE 754 binary arithmetic with \<open>p\<close> significand bits and least normal exponent
  \<open>emin\<close>, rounding to nearest, ties to even: a real number is rounded to the nearest
  multiple of the spacing of its binade (of the least binade for subnormal numbers).
  Overflow to infinity is outside the model.\<close>

definition round_half_even :: "real \<Rightarrow> int" where
  "round_half_even q =
     (let f = \<lfloor>q\<rfloor> in
      if q - of_int f < 1 / 2 then f
      else if 1 / 2 < q - of_int f then f + 1
      else if even f then f else f + 1)"

definition two_to :: "int \<Rightarrow> real" where
  "two_to k = (if 0 \<le> k then 2 ^ nat k else 1 / 2 ^ nat (- k))"

definition binade :: "real \<Rightarrow> int" where
  "binade r = \<lfloor>log 2 \<bar>r\<bar>\<rfloor>"

definition round_to :: "nat \<Rightarrow> int \<Rightarrow> real \<Rightarrow> real" where
  "round_to p emin r =
     (if r = 0 then 0
      else (let q = two_to (max (binade r) emin - int p + 1)
            in of_int (round_half_even (r / q)) * q))"

text \<open>IEEE 754 requires \<^verbatim>\<open>+\<close>, \<^verbatim>\<open>-\<close>, \<^verbatim>\<open>*\<close>, \<^verbatim>\<open>/\<close>, the square root and the
  conversions to be correctly rounded.  The C library promises no such thing for
  \<^verbatim>\<open>pow\<close>, \<^verbatim>\<open>atan2\<close>, \<^verbatim>\<open>cos\<close> and \<^verbatim>\<open>sin\<close>; they are taken correctly rounded here
  as well, which they are at the arguments where the evaluations below use them
  (squares of the doubles \<^verbatim>\<open>0.3\<close> and \<^verbatim>\<open>0.4\<close>, and the angle 0).\<close>

definition ieee :: "nat \<Rightarrow> int \<Rightarrow> Arithmetic" where
  "ieee p emin =
     \<lparr>f_add = (\<lambda>a b. round_to p emin (a + b)), f_sub = (\<lambda>a b. round_to p emin (a - b)),
      f_mul = (\<lambda>a b. round_to p emin (a * b)), f_div = (\<lambda>a b. round_to p emin (a / b)),
      f_sqrt = (\<lambda>a. round_to p emin (sqrt a)), f_pow2 = (\<lambda>a. round_to p emin (a\<^sup>2)),
      f_atan2 = (\<lambda>y x. round_to p emin (atan2 y x)), f_cos = (\<lambda>a. round_to p emin (cos a)),
      f_sin = (\<lambda>a. round_to p emin (sin a)), f_conv = round_to p emin\<rparr>"

text \<open>\<^verbatim>\<open>double\<close> and \<^verbatim>\<open>float\<close>.\<close>

definition binary64 :: Arithmetic where
  "binary64 = ieee 53 (- 1022)"

definition binary32 :: Arithmetic where
  "binary32 = ieee 24 (- 126)"

section \<open>Vehicle\<close>

definition Passenger_SetPosition :: "Passenger \<Rightarrow> Coordinate \<Rightarrow> Passenger" where
  "Passenger_SetPosition p position = p\<lparr>p_position := position\<rparr>"

definition GetDestination :: "Passenger \<Rightarrow> Coordinate" where
  "GetDestination p = p_dest p"

definition ResetPathAndIndex :: "Vehicle \<Rightarrow> Vehicle" where
  "ResetPathAndIndex v = v\<lparr>v_path := [], v_path_index := 0\<rparr>"

definition SetDestination :: "Vehicle \<Rightarrow> Coordinate \<Rightarrow> Vehicle" where
  "SetDestination v destination = ResetPathAndIndex (v\<lparr>v_destination := destination\<rparr>)"

text \<open>\<^verbatim>\<open>Vehicle::SetPassenger\<close> as in \<^verbatim>\<open>Vehicle.cpp\<close>: the destination field is
  assigned directly.\<close>

definition SetPassenger :: "Vehicle \<Rightarrow> Passenger \<Rightarrow> Vehicle" where
  "SetPassenger v passenger =
     (let v1 = v\<lparr>v_passenger := Some passenger\<rparr>;
          new_dest = GetDestination passenger
      in v1\<lparr>v_destination := new_dest\<rparr>)"

text \<open>The second copy of \<^verbatim>\<open>Vehicle::SetPassenger\<close> in the sources goes through
  \<^verbatim>\<open>SetDestination\<close>, which also clears the path.\<close>

definition SetPassenger_via_SetDestination :: "Vehicle \<Rightarrow> Passenger \<Rightarrow> Vehicle" where
  "SetPassenger_via_SetDestination v passenger =
     SetDestination (v\<lparr>v_passenger := Some passenger\<rparr>) (GetDestination passenger)"

definition SetPosition :: "Vehicle \<Rightarrow> Coordinate \<Rightarrow> Vehicle" where
  "SetPosition v position =
     (let v1 = v\<lparr>v_position := position\<rparr>
      in case v_passenger v1 of
           None \<Rightarrow> v1
         | Some p \<Rightarrow> v1\<lparr>v_passenger := Some (Passenger_SetPosition p position)\<rparr>)"

definition Vehicle_DropOffPassenger :: "Vehicle \<Rightarrow> Vehicle" where
  "Vehicle_DropOffPassenger v = v\<lparr>v_passenger := None, v_failures := 0\<rparr>"

text \<open>Modelled from the spec: the inline members of \<^verbatim>\<open>Vehicle.h\<close>, which is not among
  the sources.  \<^verbatim>\<open>SetState\<close> stores the state, \<^verbatim>\<open>IncrementPathIndex\<close> adds one to
  \<^verbatim>\<open>path_index_\<close> (section 4.D step 4: "increment \<^verbatim>\<open>path_index\<close>"), and a freshly
  constructed vehicle has an empty path, index 0, no passenger, no failures and state
  \<^verbatim>\<open>no_passenger_requested\<close> (section 4.D: "Initial state").\<close>

definition SetState :: "Vehicle \<Rightarrow> VehicleState \<Rightarrow> Vehicle" where
  "SetState v s = v\<lparr>v_state := s\<rparr>"

definition IncrementPathIndex :: "Vehicle \<Rightarrow> Vehicle" where
  "IncrementPathIndex v = v\<lparr>v_path_index := v_path_index v + 1\<rparr>"

definition SetId :: "Vehicle \<Rightarrow> int \<Rightarrow> Vehicle" where
  "SetId v i = v\<lparr>v_id := i\<rparr>"

definition origin :: Coordinate where
  "origin = \<lparr>c_x = 0, c_y = 0\<rparr>"

definition new_Vehicle :: Vehicle where
  "new_Vehicle = \<lparr>v_id = 0, v_position = origin, v_destination = origin, v_path = [],
     v_path_index = 0, v_passenger = None, v_state = no_passenger_requested, v_failures = 0\<rparr>"

section \<open>Route model and route planner\<close>

text \<open>Modelled from the spec: \<^verbatim>\<open>RouteModel.h\<close> is not among the sources.  The model
  is a parameter of everything below: its latitude bounds, its nearest-node lookup
  (section 4.A \<^verbatim>\<open>closest_node\<close>; the code reads the \<^verbatim>\<open>x\<close> and \<^verbatim>\<open>y\<close> of the node it
  returns) and the positions its random generator hands out, the \<open>n\<close>-th call
  returning \<open>RandomMapPosition n\<close>.\<close>

record RouteModel =
  MinLat :: real
  MaxLat :: real
  FindClosestNode :: "Coordinate \<Rightarrow> Coordinate"
  RandomMapPosition :: "nat \<Rightarrow> Coordinate"

definition GetRandomMapPosition :: "RouteModel \<Rightarrow> nat \<Rightarrow> Coordinate \<times> nat" where
  "GetRandomMapPosition m g = (RandomMapPosition m g, Suc g)"

text \<open>Modelled from the spec: \<^verbatim>\<open>RoutePlanner::AStarSearch\<close> is not among the sources.
  Section 4.B: the planner computes a path from the vehicle's position to its
  destination (empty when there is no route), writes it to the vehicle and resets
  \<^verbatim>\<open>path_index\<close> to 0.  The path computation itself is the parameter \<open>plan\<close>.\<close>

type_synonym planner = "Coordinate \<Rightarrow> Coordinate \<Rightarrow> Coordinate list"

definition AStarSearch :: "planner \<Rightarrow> Vehicle \<Rightarrow> Vehicle" where
  "AStarSearch plan v = v\<lparr>v_path := plan (v_position v) (v_destination v), v_path_index := 0\<rparr>"

section \<open>Vehicle manager\<close>

text \<open>The calls the manager makes on the ride matcher (\<^verbatim>\<open>RideMatcher.h\<close> is an
  external actor): they are collected as the output of a tick.\<close>

datatype MatcherCall = VehicleRequestsPassenger int | VehicleHasArrived int

text \<open>\<^verbatim>\<open>m_ride_matcher\<close> tells whether the pointer \<^verbatim>\<open>ride_matcher_\<close> is set; \<^verbatim>\<open>m_rng\<close>
  counts the random positions drawn so far.\<close>

record VehicleManager =
  m_model :: RouteModel
  m_vehicles :: "Vehicle list"
  m_distance_per_cycle :: real
  m_idCnt :: int
  m_ride_matcher :: bool
  m_rng :: nat

text \<open>\<^verbatim>\<open>std::vector::at\<close> with an \<^verbatim>\<open>int\<close> argument: a negative index converts to a
  huge unsigned one, so it throws as well.\<close>

definition vector_at :: "'a list \<Rightarrow> int \<Rightarrow> error + 'a" where
  "vector_at xs i = (if 0 \<le> i \<and> i < int (length xs) then Inr (xs ! nat i) else Inl out_of_range)"

definition GenerateNew :: "VehicleManager \<Rightarrow> VehicleManager" where
  "GenerateNew s =
     (let (start, g1) = GetRandomMapPosition (m_model s) (m_rng s);
          (destination, g2) = GetRandomMapPosition (m_model s) g1;
          nearest_start = FindClosestNode (m_model s) start;
          nearest_dest = FindClosestNode (m_model s) destination;
          vehicle = new_Vehicle;
          vehicle = SetPosition vehicle \<lparr>c_x = c_x nearest_start, c_y = c_y nearest_start\<rparr>;
          vehicle = SetDestination vehicle \<lparr>c_x = c_x nearest_dest, c_y = c_y nearest_dest\<rparr>;
          vehicle = SetId vehicle (m_idCnt s)
      in s\<lparr>m_vehicles := m_vehicles s @ [vehicle], m_idCnt := m_idCnt s + 1, m_rng := g2\<rparr>)"

text \<open>The constructor.  \<^verbatim>\<open>MAX_OBJECTS\<close>, the start of the id counter and the matcher
  pointer are declared outside the sources and are parameters here.\<close>

definition VehicleManager_new :: "RouteModel \<Rightarrow> nat \<Rightarrow> int \<Rightarrow> bool \<Rightarrow> nat \<Rightarrow> VehicleManager" where
  "VehicleManager_new model MAX_OBJECTS idCnt matcher g =
     (let s = \<lparr>m_model = model, m_vehicles = [], m_distance_per_cycle = 0,
                m_idCnt = idCnt, m_ride_matcher = matcher, m_rng = g\<rparr>;
          s = (GenerateNew ^^ MAX_OBJECTS) s
      in s\<lparr>m_distance_per_cycle := \<bar>MaxLat model - MinLat model\<bar> / 1000\<rparr>)"

definition ResetVehicleDestination :: "RouteModel \<Rightarrow> nat \<Rightarrow> Vehicle \<Rightarrow> bool \<Rightarrow> Vehicle \<times> nat" where
  "ResetVehicleDestination model g vehicle random =
     (let (destination, g1) =
            (if random then GetRandomMapPosition model g else (v_destination vehicle, g));
          nearest_dest = FindClosestNode model destination;
          vehicle = SetDestination vehicle \<lparr>c_x = c_x nearest_dest, c_y = c_y nearest_dest\<rparr>
      in (ResetPathAndIndex vehicle, g1))"

text \<open>\<^verbatim>\<open>VehicleManager::IncrementalMove\<close>, in the arithmetic \<open>ar\<close>.\<close>

definition IncrementalMove_in :: "Arithmetic \<Rightarrow> real \<Rightarrow> Vehicle \<Rightarrow> error + Vehicle" where
  "IncrementalMove_in ar distance_per_cycle vehicle =
     (let pos = v_position vehicle in
      case vector_at (v_path vehicle) (v_path_index vehicle) of
        Inl e \<Rightarrow> Inl e
      | Inr next_pos \<Rightarrow>
          (let distance = f_sqrt ar (f_add ar (f_pow2 ar (f_sub ar (c_x next_pos) (c_x pos)))
                                             (f_pow2 ar (f_sub ar (c_y next_pos) (c_y pos)))) in
           if distance \<le> distance_per_cycle
           then Inr (IncrementPathIndex
                  (SetPosition vehicle \<lparr>c_x = c_x next_pos, c_y = c_y next_pos\<rparr>))
           else
             (let angle = f_atan2 ar (f_sub ar (c_y next_pos) (c_y pos))
                                     (f_sub ar (c_x next_pos) (c_x pos));
                  new_pos_x = f_add ar (c_x pos) (f_mul ar distance_per_cycle (f_cos ar angle));
                  new_pos_y = f_add ar (c_y pos) (f_mul ar distance_per_cycle (f_sin ar angle))
              in Inr (SetPosition vehicle \<lparr>c_x = new_pos_x, c_y = new_pos_y\<rparr>))))"

text \<open>The move in exact arithmetic: the idealisation from which the code differs by
  rounding only.  The loop of \<^verbatim>\<open>Drive\<close> below is written with it; what is proved
  about states, passengers, paths and indices does not depend on the arithmetic.\<close>

definition IncrementalMove :: "real \<Rightarrow> Vehicle \<Rightarrow> error + Vehicle" where
  "IncrementalMove distance_per_cycle vehicle = IncrementalMove_in exact distance_per_cycle vehicle"

definition RequestPassenger :: "bool \<Rightarrow> Vehicle \<Rightarrow> Vehicle \<times> MatcherCall list" where
  "RequestPassenger matcher vehicle =
     (let vehicle = SetState vehicle no_passenger_queued
      in (vehicle, if matcher then [VehicleRequestsPassenger (v_id vehicle)] else []))"

definition ArrivedAtPassenger :: "bool \<Rightarrow> Vehicle \<Rightarrow> error + Vehicle \<times> MatcherCall list" where
  "ArrivedAtPassenger matcher vehicle =
     (let vehicle = SetState vehicle waiting
      in if matcher then Inr (vehicle, [VehicleHasArrived (v_id vehicle)])
         else Inl null_pointer)"

text \<open>\<^verbatim>\<open>VehicleManager::DropOffPassenger\<close>; the log line reads the id of the carried
  passenger through the pointer first.\<close>

definition DropOffPassenger :: "RouteModel \<Rightarrow> nat \<Rightarrow> Vehicle \<Rightarrow> error + Vehicle \<times> nat" where
  "DropOffPassenger model g vehicle =
     (case v_passenger vehicle of
        None \<Rightarrow> Inl null_pointer
      | Some _ \<Rightarrow>
          (let vehicle = Vehicle_DropOffPassenger vehicle;
               (vehicle, g1) = ResetVehicleDestination model g vehicle True
           in Inr (SetState vehicle no_passenger_requested, g1)))"

text \<open>The arrival test at the end of the loop body of \<^verbatim>\<open>Drive\<close>.\<close>

definition arrival_test ::
  "RouteModel \<Rightarrow> bool \<Rightarrow> nat \<Rightarrow> Vehicle \<Rightarrow> error + Vehicle \<times> MatcherCall list \<times> nat" where
  "arrival_test model matcher g vehicle =
     (if v_position vehicle = v_destination vehicle then
        (if v_state vehicle = no_passenger_queued then
           (let (vehicle, g1) = ResetVehicleDestination model g vehicle True
            in Inr (vehicle, [], g1))
         else if v_state vehicle = passenger_queued then
           (case ArrivedAtPassenger matcher vehicle of
              Inl e \<Rightarrow> Inl e
            | Inr (vehicle, calls) \<Rightarrow> Inr (vehicle, calls, g))
         else if v_state vehicle = driving_passenger then
           (case DropOffPassenger model g vehicle of
              Inl e \<Rightarrow> Inl e
            | Inr (vehicle, g1) \<Rightarrow> Inr (vehicle, [], g1))
         else Inr (vehicle, [], g))
      else Inr (vehicle, [], g))"

text \<open>The body of the \<^verbatim>\<open>for\<close> loop of \<^verbatim>\<open>Drive\<close> for one vehicle: the vehicle after
  the iteration, the calls made on the matcher, and the random generator.\<close>

definition Drive_vehicle ::
  "RouteModel \<Rightarrow> planner \<Rightarrow> bool \<Rightarrow> real \<Rightarrow> nat \<Rightarrow> Vehicle
     \<Rightarrow> error + Vehicle \<times> MatcherCall list \<times> nat" where
  "Drive_vehicle model plan matcher distance_per_cycle g vehicle =
     (let routed = (if v_path vehicle = [] then AStarSearch plan vehicle else vehicle) in
      if v_path vehicle = [] \<and> v_path routed = [] then
        (let (vehicle, g1) = ResetVehicleDestination model g routed True
         in Inr (vehicle, [], g1))
      else
        (let (vehicle, calls) =
               (if v_state routed = no_passenger_requested
                then RequestPassenger matcher routed else (routed, []))
         in if v_state vehicle = waiting then Inr (vehicle, calls, g)
            else
              (case IncrementalMove distance_per_cycle vehicle of
                 Inl e \<Rightarrow> Inl e
               | Inr vehicle \<Rightarrow>
                   (case arrival_test model matcher g vehicle of
                      Inl e \<Rightarrow> Inl e
                    | Inr (vehicle, calls2, g1) \<Rightarrow> Inr (vehicle, calls @ calls2, g1)))))"

text \<open>The \<^verbatim>\<open>for\<close> loop over \<^verbatim>\<open>vehicles_\<close>: one tick of \<^verbatim>\<open>Drive\<close>.\<close>

fun Drive_loop ::
  "RouteModel \<Rightarrow> planner \<Rightarrow> bool \<Rightarrow> real \<Rightarrow> nat \<Rightarrow> Vehicle list
     \<Rightarrow> error + Vehicle list \<times> MatcherCall list \<times> nat" where
  "Drive_loop model plan matcher d g [] = Inr ([], [], g)"
| "Drive_loop model plan matcher d g (vehicle # rest) =
     (case Drive_vehicle model plan matcher d g vehicle of
        Inl e \<Rightarrow> Inl e
      | Inr (vehicle', calls, g1) \<Rightarrow>
          (case Drive_loop model plan matcher d g1 rest of
             Inl e \<Rightarrow> Inl e
           | Inr (rest', calls2, g2) \<Rightarrow> Inr (vehicle' # rest', calls @ calls2, g2)))"

definition Drive :: "planner \<Rightarrow> VehicleManager \<Rightarrow> error + VehicleManager \<times> MatcherCall list" where
  "Drive plan s =
     (case Drive_loop (m_model s) plan (m_ride_matcher s) (m_distance_per_cycle s)
             (m_rng s) (m_vehicles s) of
        Inl e \<Rightarrow> Inl e
      | Inr (vehicles, calls, g) \<Rightarrow> Inr (s\<lparr>m_vehicles := vehicles, m_rng := g\<rparr>, calls))"

definition AssignPassenger :: "VehicleManager \<Rightarrow> int \<Rightarrow> Coordinate \<Rightarrow> error + VehicleManager" where
  "AssignPassenger s i position =
     (case vector_at (m_vehicles s) i of
        Inl e \<Rightarrow> Inl e
      | Inr vehicle \<Rightarrow>
          (let vehicle = SetDestination vehicle position;
               (vehicle, g) = ResetVehicleDestination (m_model s) (m_rng s) vehicle False;
               vehicle = SetState vehicle passenger_queued
           in Inr (s\<lparr>m_vehicles := (m_vehicles s)[nat i := vehicle], m_rng := g\<rparr>)))"

definition PassengerIntoVehicle :: "VehicleManager \<Rightarrow> int \<Rightarrow> Passenger \<Rightarrow> error + VehicleManager" where
  "PassengerIntoVehicle s i passenger =
     (case vector_at (m_vehicles s) i of
        Inl e \<Rightarrow> Inl e
      | Inr vehicle \<Rightarrow>
          (let vehicle = SetPassenger vehicle passenger;
               (vehicle, g) = ResetVehicleDestination (m_model s) (m_rng s) vehicle False;
               vehicle = SetState vehicle driving_passenger
           in Inr (s\<lparr>m_vehicles := (m_vehicles s)[nat i := vehicle], m_rng := g\<rparr>)))"

text \<open>The vehicle that the loop body of \<^verbatim>\<open>Drive\<close> hands to \<^verbatim>\<open>IncrementalMove\<close>, and
  \<open>None\<close> when the iteration ends before the move (no route, or a waiting vehicle).\<close>

definition IncrementalMove_arg :: "planner \<Rightarrow> bool \<Rightarrow> Vehicle \<Rightarrow> Vehicle option" where
  "IncrementalMove_arg plan matcher vehicle =
     (let routed = (if v_path vehicle = [] then AStarSearch plan vehicle else vehicle) in
      if v_path vehicle = [] \<and> v_path routed = [] then None
      else
        (let (vehicle, calls) =
               (if v_state routed = no_passenger_requested
                then RequestPassenger matcher routed else (routed, []))
         in if v_state vehicle = waiting then None else Some vehicle))"

text \<open>The vehicle after the routing step and the passenger request of the loop body:
  a vehicle without a path receives the planner's path and index 0, and a vehicle in
  \<^verbatim>\<open>no_passenger_requested\<close> has asked for a passenger.\<close>

definition before_move :: "planner \<Rightarrow> Vehicle \<Rightarrow> Vehicle" where
  "before_move plan v =
     v\<lparr>v_path := (if v_path v = [] then plan (v_position v) (v_destination v) else v_path v),
       v_path_index := (if v_path v = [] then 0 else v_path_index v),
       v_state := (if v_state v = no_passenger_requested then no_passenger_queued
                   else v_state v)\<rparr>"

text \<open>
  The states the manager can be in.  The matcher runs as another actor and its
  callbacks \<^verbatim>\<open>AssignPassenger\<close> and \<^verbatim>\<open>PassengerIntoVehicle\<close> are taken as whole
  operations between ticks of \<^verbatim>\<open>Drive\<close>, with any argument; the drop-off of the
  vehicle at an index is also listed as an operation of its own.
\<close>

inductive reachable :: "planner \<Rightarrow> VehicleManager \<Rightarrow> bool" for plan :: planner where
  constructed: "reachable plan (VehicleManager_new model n idCnt matcher g)"
| drive_tick: "reachable plan s \<Longrightarrow> Drive plan s = Inr (s', calls) \<Longrightarrow> reachable plan s'"
| assign_passenger:
    "reachable plan s \<Longrightarrow> AssignPassenger s i position = Inr s' \<Longrightarrow> reachable plan s'"
| passenger_into_vehicle:
    "reachable plan s \<Longrightarrow> PassengerIntoVehicle s i passenger = Inr s' \<Longrightarrow> reachable plan s'"
| drop_off:
    "reachable plan s \<Longrightarrow> k < length (m_vehicles s)
       \<Longrightarrow> DropOffPassenger (m_model s) (m_rng s) (m_vehicles s ! k) = Inr (vehicle, g)
       \<Longrightarrow> reachable plan (s\<lparr>m_vehicles := (m_vehicles s)[k := vehicle], m_rng := g\<rparr>)"

text \<open>The same operations when the matcher keeps to its protocol in one respect: it
  assigns a pickup only to a vehicle that carries no passenger.\<close>

inductive reachable_in_protocol :: "planner \<Rightarrow> VehicleManager \<Rightarrow> bool"
  for plan :: planner where
  p_constructed: "reachable_in_protocol plan (VehicleManager_new model n idCnt matcher g)"
| p_drive_tick:
    "reachable_in_protocol plan s \<Longrightarrow> Drive plan s = Inr (s', calls)
       \<Longrightarrow> reachable_in_protocol plan s'"
| p_assign_passenger:
    "reachable_in_protocol plan s \<Longrightarrow> vector_at (m_vehicles s) i = Inr vehicle
       \<Longrightarrow> v_passenger vehicle = None
       \<Longrightarrow> AssignPassenger s i position = Inr s' \<Longrightarrow> reachable_in_protocol plan s'"
| p_passenger_into_vehicle:
    "reachable_in_protocol plan s \<Longrightarrow> PassengerIntoVehicle s i passenger = Inr s'
       \<Longrightarrow> reachable_in_protocol plan s'"
| p_drop_off:
    "reachable_in_protocol plan s \<Longrightarrow> k < length (m_vehicles s)
       \<Longrightarrow> DropOffPassenger (m_model s) (m_rng s) (m_vehicles s ! k) = Inr (vehicle, g)
       \<Longrightarrow> reachable_in_protocol plan
             (s\<lparr>m_vehicles := (m_vehicles s)[k := vehicle], m_rng := g\<rparr>)"

text \<open>The invariant of the data model: a vehicle carries a passenger exactly when it
  is in state \<^verbatim>\<open>driving_passenger\<close>.\<close>

definition carrying_iff_driving :: "Vehicle \<Rightarrow> bool" where
  "carrying_iff_driving v = ((v_passenger v \<noteq> None) = (v_state v = driving_passenger))"

text \<open>Modelled from the spec: what the missing route planner promises.  Section 4.B:
  the path excludes the start and includes the goal; section 8, routing round-trip:
  a path ends at the node snapped from the goal.  So for a destination that is itself
  the coordinate of a node returned by the nearest-node lookup, a path that is not
  empty ends at the destination.\<close>

definition planner_reaches_goal :: "RouteModel \<Rightarrow> planner \<Rightarrow> bool" where
  "planner_reaches_goal model plan =
     (\<forall>p c. plan p (FindClosestNode model c) = []
          \<or> last (plan p (FindClosestNode model c)) = FindClosestNode model c)"

text \<open>The invariant behind the element access of \<^verbatim>\<open>IncrementalMove\<close>: the destination
  is a node coordinate, and a path that is not empty ends at the destination, with
  the index inside the path, or one past its end in a vehicle that waits.\<close>

definition path_in_bounds :: "RouteModel \<Rightarrow> Vehicle \<Rightarrow> bool" where
  "path_in_bounds model v =
     ((\<exists>c. v_destination v = FindClosestNode model c)
      \<and> (v_path v = []
         \<or> (last (v_path v) = v_destination v \<and> 0 \<le> v_path_index v
            \<and> (v_path_index v < int (length (v_path v))
               \<or> (v_path_index v = int (length (v_path v)) \<and> v_state v = waiting)))))"

text \<open>Euclidean distance on the degree plane.\<close>

definition euclid :: "Coordinate \<Rightarrow> Coordinate \<Rightarrow> real" where
  "euclid a b = sqrt ((c_x b - c_x a)\<^sup>2 + (c_y b - c_y a)\<^sup>2)"

section \<open>Graphics\<close>

record BasicIntersection =
  i_x :: real
  i_y :: real

definition Intersection_GetPosition :: "BasicIntersection \<Rightarrow> real list" where
  "Intersection_GetPosition i = [i_x i, i_y i]"

record BasicGraphics =
  g_min_lat :: real
  g_min_lon :: real
  g_max_lat :: real
  g_max_lon :: real

text \<open>The cast \<^verbatim>\<open>(int)\<close> of a floating-point value: truncation toward zero, defined
  only when the truncated value fits a 32-bit \<^verbatim>\<open>int\<close>.\<close>

definition trunc :: "real \<Rightarrow> int" where
  "trunc r = (if 0 \<le> r then \<lfloor>r\<rfloor> else \<lceil>r\<rceil>)"

definition cast_int :: "real \<Rightarrow> int option" where
  "cast_int r =
     (let t = trunc r
      in if - 2147483648 \<le> t \<and> t \<le> 2147483647 then Some t else None)"

text \<open>Floating-point division: by zero it gives an infinity or NaN, which the model
  does not have; the result is then \<open>None\<close>, and so is everything computed from it.\<close>

definition fdiv :: "Arithmetic \<Rightarrow> real \<Rightarrow> real \<Rightarrow> real option" where
  "fdiv ar a b = (if b = 0 then None else Some (f_div ar a b))"

text \<open>The centre \<^verbatim>\<open>cv::Point2d((int)(position[0] * img_cols), (int)(position[1] * img_rows))\<close>
  of a circle, from the two normalised coordinates; \<open>img_rows\<close> and \<open>img_cols\<close> are
  the \<^verbatim>\<open>float\<close> variables of that name.\<close>

definition circle_centre ::
  "Arithmetic \<Rightarrow> real option \<Rightarrow> real option \<Rightarrow> real \<Rightarrow> real \<Rightarrow> (int \<times> int) option" where
  "circle_centre ar position0 position1 img_rows img_cols =
     (case (position0, position1) of
        (Some p0, Some p1) \<Rightarrow>
          (case (cast_int (f_mul ar p0 img_cols), cast_int (f_mul ar p1 img_rows)) of
             (Some px, Some py) \<Rightarrow> Some (px, py)
           | _ \<Rightarrow> None)
      | _ \<Rightarrow> None)"

text \<open>\<^verbatim>\<open>DrawIntersections\<close> in the \<^verbatim>\<open>float\<close> arithmetic \<open>ar\<close>: the centres of the
  circles drawn on the overlay, one per intersection, for a background image of
  \<open>rows\<close> rows and \<open>cols\<close> columns (the \<^verbatim>\<open>int\<close> members of the image, converted to
  \<^verbatim>\<open>float\<close> first).\<close>

definition DrawIntersections ::
  "Arithmetic \<Rightarrow> BasicGraphics \<Rightarrow> int \<Rightarrow> int \<Rightarrow> BasicIntersection list
     \<Rightarrow> (int \<times> int) option list" where
  "DrawIntersections ar gr rows cols intersections =
     (let img_rows = f_conv ar (of_int rows);
          img_cols = f_conv ar (of_int cols)
      in map (\<lambda>intersect.
            let position = Intersection_GetPosition intersect;
                position0 = fdiv ar (f_sub ar (position ! 0) (g_min_lon gr))
                              (f_sub ar (g_max_lon gr) (g_min_lon gr));
                position1 = fdiv ar (f_sub ar (g_max_lat gr) (position ! 1))
                              (f_sub ar (g_max_lat gr) (g_min_lat gr))
            in circle_centre ar position0 position1 img_rows img_cols)
         intersections)"

text \<open>\<^verbatim>\<open>DrawPassengers\<close>: per waiting passenger, the centres of the circle at its start
  and of the circle at its destination.  The passenger's coordinates are converted
  to \<^verbatim>\<open>float\<close> as they enter the \<^verbatim>\<open>std::vector<float>\<close>.\<close>

definition DrawPassengers ::
  "Arithmetic \<Rightarrow> BasicGraphics \<Rightarrow> int \<Rightarrow> int \<Rightarrow> Passenger list
     \<Rightarrow> ((int \<times> int) option \<times> (int \<times> int) option) list" where
  "DrawPassengers ar gr rows cols new_passengers =
     (let img_rows = f_conv ar (of_int rows);
          img_cols = f_conv ar (of_int cols)
      in map (\<lambda>passenger.
            let start_position = [f_conv ar (c_x (p_start passenger)),
                                  f_conv ar (c_y (p_start passenger))];
                dest_position = [f_conv ar (c_x (p_dest passenger)),
                                 f_conv ar (c_y (p_dest passenger))];
                start0 = fdiv ar (f_sub ar (start_position ! 0) (g_min_lon gr))
                           (f_sub ar (g_max_lon gr) (g_min_lon gr));
                start1 = fdiv ar (f_sub ar (g_max_lat gr) (start_position ! 1))
                           (f_sub ar (g_max_lat gr) (g_min_lat gr));
                dest0 = fdiv ar (f_sub ar (dest_position ! 0) (g_min_lon gr))
                          (f_sub ar (g_max_lon gr) (g_min_lon gr));
                dest1 = fdiv ar (f_sub ar (g_max_lat gr) (dest_position ! 1))
                          (f_sub ar (g_max_lat gr) (g_min_lat gr))
            in (circle_centre ar start0 start1 img_rows img_cols,
                circle_centre ar dest0 dest1 img_rows img_cols))
         new_passengers)"

text \<open>The products \<^verbatim>\<open>position[0] * img_cols\<close> and \<^verbatim>\<open>position[1] * img_rows\<close> that
  the code casts to \<^verbatim>\<open>int\<close>, for a longitude and a latitude held in \<^verbatim>\<open>float\<close>:
  difference, quotient and product in the arithmetic \<open>ar\<close>.\<close>

definition product_x :: "Arithmetic \<Rightarrow> BasicGraphics \<Rightarrow> int \<Rightarrow> real \<Rightarrow> real" where
  "product_x ar gr width lon =
     f_mul ar (f_div ar (f_sub ar lon (g_min_lon gr)) (f_sub ar (g_max_lon gr) (g_min_lon gr)))
       (f_conv ar (of_int width))"

definition product_y :: "Arithmetic \<Rightarrow> BasicGraphics \<Rightarrow> int \<Rightarrow> real \<Rightarrow> real" where
  "product_y ar gr height lat =
     f_mul ar (f_div ar (f_sub ar (g_max_lat gr) lat) (f_sub ar (g_max_lat gr) (g_min_lat gr)))
       (f_conv ar (of_int height))"

text \<open>A map of four degrees by four, and one of twelve degrees of longitude by four
  of latitude.\<close>

definition square :: BasicGraphics where
  "square = \<lparr>g_min_lat = 0, g_min_lon = 0, g_max_lat = 4, g_max_lon = 4\<rparr>"

definition wide :: BasicGraphics where
  "wide = \<lparr>g_min_lat = 0, g_min_lon = 0, g_max_lat = 4, g_max_lon = 12\<rparr>"

section \<open>A small map\<close>

text \<open>Two road nodes, at \<open>(0, 0)\<close> and \<open>(10, 0)\<close>, joined by a road; latitudes span
  3000 degrees so that a vehicle moves 3 per tick.  The random generator alternates
  between a point near the second node and a point near the first.\<close>

definition node_a :: Coordinate where
  "node_a = \<lparr>c_x = 0, c_y = 0\<rparr>"

definition node_b :: Coordinate where
  "node_b = \<lparr>c_x = 10, c_y = 0\<rparr>"

definition two_nodes :: RouteModel where
  "two_nodes = \<lparr>MinLat = 0, MaxLat = 3000,
     FindClosestNode = (\<lambda>c. if c_x c \<le> 5 then node_a else node_b),
     RandomMapPosition = (\<lambda>n. if even n then \<lparr>c_x = 9, c_y = 1\<rparr> else \<lparr>c_x = 1, c_y = 1\<rparr>)\<rparr>"

definition two_nodes_plan :: planner where
  "two_nodes_plan p d =
     (if FindClosestNode two_nodes p = FindClosestNode two_nodes d then []
      else [FindClosestNode two_nodes d])"

definition rider :: Passenger where
  "rider = \<lparr>p_id = 7, p_start = node_a, p_dest = \<lparr>c_x = 8, c_y = 2\<rparr>, p_position = node_a\<rparr>"

text \<open>A cab at the first node, routed to the second one.\<close>

definition cab :: Vehicle where
  "cab = new_Vehicle\<lparr>v_position := node_a, v_destination := node_b, v_path := [node_b],
     v_state := no_passenger_queued\<rparr>"

text \<open>The same map with the road removed: no route is ever found.\<close>

definition no_route :: planner where
  "no_route p d = []"

text \<open>A vehicle at the second node bound for the first, as the constructor creates
  it; a cab that has just arrived at the second node with a passenger, after two
  failures; and a vehicle carrying the rider that has not been routed yet.\<close>

definition taxi :: Vehicle where
  "taxi = new_Vehicle\<lparr>v_position := node_b, v_destination := node_a\<rparr>"

definition cab_arrived :: Vehicle where
  "cab_arrived = cab\<lparr>v_position := node_b, v_path_index := 1, v_passenger := Some rider,
     v_state := driving_passenger, v_failures := 2\<rparr>"

definition stuck :: Vehicle where
  "stuck = new_Vehicle\<lparr>v_position := node_a, v_destination := node_b,
     v_passenger := Some rider, v_state := driving_passenger\<rparr>"

text \<open>The doubles written \<^verbatim>\<open>0.3\<close> and \<^verbatim>\<open>0.4\<close> in a program, and a vehicle at the
  origin whose one path point is \<^verbatim>\<open>(0.3, 0.4)\<close>.\<close>

definition double_0_3 :: real where
  "double_0_3 = 5404319552844595 / 2 ^ 54"

definition double_0_4 :: real where
  "double_0_4 = 3602879701896397 / 2 ^ 53"

definition short_hop :: Vehicle where
  "short_hop = new_Vehicle\<lparr>v_destination := \<lparr>c_x = double_0_3, c_y = double_0_4\<rparr>,
     v_path := [\<lparr>c_x = double_0_3, c_y = double_0_4\<rparr>], v_state := no_passenger_queued\<rparr>"

text \<open>The constructed vehicle in the middle of its first loop iteration, routed and
  having requested a passenger; and the same vehicle after the matcher has assigned
  it a pickup at the second node.\<close>

definition taxi_routed :: Vehicle where
  "taxi_routed = taxi\<lparr>v_path := [node_a], v_state := no_passenger_queued\<rparr>"

definition taxi_assigned :: Vehicle where
  "taxi_assigned = taxi\<lparr>v_destination := node_b, v_state := passenger_queued\<rparr>"

text \<open>A manager constructed over the small map with a single vehicle.\<close>

definition fleet :: VehicleManager where
  "fleet = VehicleManager_new two_nodes 1 0 True 0"

text \<open>The fleet after the rider has boarded its vehicle, and after the matcher has
  then assigned that vehicle a pickup at the first node.\<close>

definition boarded :: VehicleManager where
  "boarded = fleet\<lparr>m_vehicles := [taxi\<lparr>v_passenger := Some rider, v_destination := node_b,
                                         v_state := driving_passenger\<rparr>]\<rparr>"

definition overbooked :: VehicleManager where
  "overbooked = fleet\<lparr>m_vehicles := [taxi\<lparr>v_passenger := Some rider, v_destination := node_a,
                                            v_state := passenger_queued\<rparr>]\<rparr>"

section \<open>Auxiliary facts\<close>

lemma IncrementalMove_unfold:
  "IncrementalMove distance_per_cycle vehicle =
     (let pos = v_position vehicle in
      case vector_at (v_path vehicle) (v_path_index vehicle) of
        Inl e \<Rightarrow> Inl e
      | Inr next_pos \<Rightarrow>
          (let distance = sqrt ((c_x next_pos - c_x pos)\<^sup>2 + (c_y next_pos - c_y pos)\<^sup>2) in
           if distance \<le> distance_per_cycle
           then Inr (IncrementPathIndex
                  (SetPosition vehicle \<lparr>c_x = c_x next_pos, c_y = c_y next_pos\<rparr>))
           else
             (let angle = atan2 (c_y next_pos - c_y pos) (c_x next_pos - c_x pos);
                  new_pos_x = c_x pos + distance_per_cycle * cos angle;
                  new_pos_y = c_y pos + distance_per_cycle * sin angle
              in Inr (SetPosition vehicle \<lparr>c_x = new_pos_x, c_y = new_pos_y\<rparr>))))"
  by (simp add: IncrementalMove_def IncrementalMove_in_def exact_def Let_def split: sum.splits)

lemma Coordinate_eta: "\<lparr>c_x = c_x c, c_y = c_y c\<rparr> = (c::Coordinate)"
  by simp

lemma sqrt100: "sqrt 100 = 10"
  by (rule real_sqrt_unique) simp_all

text \<open>Evaluating the rounding.\<close>

lemma two_to_powr: "two_to k = 2 powr of_int k"
proof (cases "0 \<le> k")
  case True
  then show ?thesis
    by (simp add: two_to_def powr_realpow [symmetric])
next
  case False
  then have "(2::real) powr of_int k = 1 / 2 powr of_int (- k)"
    by (simp add: powr_minus_divide)
  also have "\<dots> = 1 / 2 ^ nat (- k)"
    using False by (simp add: powr_realpow [symmetric])
  finally show ?thesis
    using False by (simp add: two_to_def)
qed

lemma binade_eqI:
  assumes "two_to e \<le> \<bar>r\<bar>" and "\<bar>r\<bar> < two_to (e + 1)"
  shows "binade r = e"
proof -
  have pos: "0 < \<bar>r\<bar>"
    using assms(1) unfolding two_to_powr by (smt (verit) powr_gt_zero)
  have "of_int e \<le> log 2 \<bar>r\<bar>"
    using assms(1) pos by (simp add: le_log_iff two_to_powr)
  moreover have "log 2 \<bar>r\<bar> < of_int e + 1"
    using assms(2) pos by (simp add: log_less_iff two_to_powr)
  ultimately show ?thesis
    unfolding binade_def by (rule floor_unique)
qed

lemma round_to_eval:
  assumes "two_to e \<le> \<bar>r\<bar>" and "\<bar>r\<bar> < two_to (e + 1)"
  shows "round_to p emin r =
     of_int (round_half_even (r / two_to (max e emin - int p + 1)))
       * two_to (max e emin - int p + 1)"
proof -
  have "r \<noteq> 0"
    using assms(1) unfolding two_to_powr by (smt (verit) powr_gt_zero)
  then show ?thesis
    by (simp add: round_to_def binade_eqI [OF assms] Let_def)
qed

lemma double_1: "round_to 53 (- 1022) 1 = 1"
  by (subst round_to_eval [where e = 0]) (simp_all add: round_half_even_def two_to_def Let_def)

lemma double_3: "round_to 53 (- 1022) 3 = 3"
  by (subst round_to_eval [where e = 1]) (simp_all add: round_half_even_def two_to_def Let_def)

lemma double_10: "round_to 53 (- 1022) 10 = 10"
  by (subst round_to_eval [where e = 3]) (simp_all add: round_half_even_def two_to_def Let_def)

lemma double_100: "round_to 53 (- 1022) 100 = 100"
  by (subst round_to_eval [where e = 6]) (simp_all add: round_half_even_def two_to_def Let_def)

lemma double_half: "round_to 53 (- 1022) (1 / 2) = 1 / 2"
  by (subst round_to_eval [where e = "-1"]) (simp_all add: round_half_even_def two_to_def Let_def)

lemmas double_small = double_1 double_3 double_10 double_100 double_half

lemma double_0_3_exact: "round_to 53 (- 1022) double_0_3 = double_0_3"
  unfolding double_0_3_def
  by (subst round_to_eval [where e = "-2"]) (simp_all add: round_half_even_def two_to_def Let_def)

lemma double_0_4_exact: "round_to 53 (- 1022) double_0_4 = double_0_4"
  unfolding double_0_4_def
  by (subst round_to_eval [where e = "-2"]) (simp_all add: round_half_even_def two_to_def Let_def)

lemma double_0_3_squared: "round_to 53 (- 1022) (double_0_3\<^sup>2) = 3242591731706757 / 2 ^ 55"
  unfolding double_0_3_def
  by (subst round_to_eval [where e = "-4"]) (simp_all add: round_half_even_def two_to_def Let_def power2_eq_square)

lemma double_0_4_squared: "round_to 53 (- 1022) (double_0_4\<^sup>2) = 1441151880758559 / 2 ^ 53"
  unfolding double_0_4_def
  by (subst round_to_eval [where e = "-3"]) (simp_all add: round_half_even_def two_to_def Let_def power2_eq_square)

lemma double_sum_quarter:
  "round_to 53 (- 1022) (9007199254740993 / 36028797018963968) = 1 / 4"
  by (subst round_to_eval [where e = "-2"]) (simp_all add: round_half_even_def two_to_def Let_def)

lemma sqrt_quarter: "sqrt (1 / 4) = 1 / 2"
  by (rule real_sqrt_unique) (simp_all add: power2_eq_square)

lemma float_1: "round_to 24 (- 126) 1 = 1"
  by (subst round_to_eval [where e = 0]) (simp_all add: round_half_even_def two_to_def Let_def)

lemma float_2: "round_to 24 (- 126) 2 = 2"
  by (subst round_to_eval [where e = 1]) (simp_all add: round_half_even_def two_to_def Let_def)

lemma float_3: "round_to 24 (- 126) 3 = 3"
  by (subst round_to_eval [where e = 1]) (simp_all add: round_half_even_def two_to_def Let_def)

lemma float_4: "round_to 24 (- 126) 4 = 4"
  by (subst round_to_eval [where e = 2]) (simp_all add: round_half_even_def two_to_def Let_def)

lemma float_7: "round_to 24 (- 126) 7 = 7"
  by (subst round_to_eval [where e = 2]) (simp_all add: round_half_even_def two_to_def Let_def)

lemma float_12: "round_to 24 (- 126) 12 = 12"
  by (subst round_to_eval [where e = 3]) (simp_all add: round_half_even_def two_to_def Let_def)

lemma float_108: "round_to 24 (- 126) 108 = 108"
  by (subst round_to_eval [where e = 6]) (simp_all add: round_half_even_def two_to_def Let_def)

lemma float_quarter: "round_to 24 (- 126) (1 / 4) = 1 / 4"
  by (subst round_to_eval [where e = "-2"]) (simp_all add: round_half_even_def two_to_def Let_def)

lemma float_half: "round_to 24 (- 126) (1 / 2) = 1 / 2"
  by (subst round_to_eval [where e = "-1"]) (simp_all add: round_half_even_def two_to_def Let_def)

lemma float_three_quarters: "round_to 24 (- 126) (3 / 4) = 3 / 4"
  by (subst round_to_eval [where e = "-1"]) (simp_all add: round_half_even_def two_to_def Let_def)

lemma float_7_12: "round_to 24 (- 126) (7 / 12) = 9786709 / 16777216"
  by (subst round_to_eval [where e = "-1"]) (simp_all add: round_half_even_def two_to_def Let_def)

lemma float_7_12_108: "round_to 24 (- 126) (264241143 / 4194304) = 16515071 / 262144"
  by (subst round_to_eval [where e = 5]) (simp_all add: round_half_even_def two_to_def Let_def)

lemma SetPosition_fields:
  "v_position (SetPosition v c) = c" "v_path (SetPosition v c) = v_path v"
  "v_path_index (SetPosition v c) = v_path_index v" "v_state (SetPosition v c) = v_state v"
  "v_destination (SetPosition v c) = v_destination v" "v_failures (SetPosition v c) = v_failures v"
  "v_id (SetPosition v c) = v_id v"
  "v_passenger (SetPosition v c) = map_option (\<lambda>p. p\<lparr>p_position := c\<rparr>) (v_passenger v)"
  by (simp_all add: SetPosition_def Passenger_SetPosition_def Let_def split: option.splits)

lemma step_length: "sqrt ((d * cos a)\<^sup>2 + (d * sin a)\<^sup>2) = \<bar>d\<bar>"
proof -
  have "(d * cos a)\<^sup>2 + (d * sin a)\<^sup>2 = d\<^sup>2 * ((cos a)\<^sup>2 + (sin a)\<^sup>2)"
    by (simp only: power_mult_distrib distrib_left)
  also have "\<dots> = d\<^sup>2"
    by simp
  finally show ?thesis
    by (simp only: real_sqrt_abs)
qed

text \<open>\<open>atan2 y x\<close> is the direction of the point \<open>(x, y)\<close>.\<close>

lemma sqrt_scale:
  assumes "x \<noteq> 0"
  shows "sqrt (1 + (y / x)\<^sup>2) = sqrt (x\<^sup>2 + y\<^sup>2) / \<bar>x\<bar>"
proof -
  have "1 + (y / x)\<^sup>2 = (x\<^sup>2 + y\<^sup>2) / x\<^sup>2"
    using assms by (simp add: power_divide add_divide_distrib)
  then show ?thesis
    by (simp add: real_sqrt_divide)
qed

lemma cos_atan2:
  assumes "x \<noteq> 0 \<or> y \<noteq> 0"
  shows "cos (atan2 y x) = x / sqrt (x\<^sup>2 + y\<^sup>2)"
proof -
  consider "0 < x" | "x < 0" | "x = 0" "y \<noteq> 0" using assms by linarith
  then show ?thesis
  proof cases
    case 1
    then show ?thesis by (simp add: atan2_def cos_arctan sqrt_scale)
  next
    case 2
    then show ?thesis by (simp add: atan2_def cos_arctan sqrt_scale)
  next
    case 3
    then show ?thesis by (simp add: atan2_def)
  qed
qed

lemma sin_atan2:
  assumes "x \<noteq> 0 \<or> y \<noteq> 0"
  shows "sin (atan2 y x) = y / sqrt (x\<^sup>2 + y\<^sup>2)"
proof -
  consider "0 < x" | "x < 0" | "x = 0" "0 < y" | "x = 0" "y < 0" using assms by linarith
  then show ?thesis
  proof cases
    case 1
    then show ?thesis by (simp add: atan2_def sin_arctan sqrt_scale)
  next
    case 2
    then show ?thesis by (simp add: atan2_def sin_arctan sqrt_scale)
  next
    case 3
    then show ?thesis by (simp add: atan2_def)
  next
    case 4
    then show ?thesis by (simp add: atan2_def)
  qed
qed

lemma ResetVehicleDestination_eq:
  "ResetVehicleDestination m g v r =
     (v\<lparr>v_destination := FindClosestNode m (if r then RandomMapPosition m g else v_destination v),
        v_path := [], v_path_index := 0\<rparr>,
      if r then Suc g else g)"
  by (simp add: ResetVehicleDestination_def GetRandomMapPosition_def SetDestination_def
      ResetPathAndIndex_def Coordinate_eta)

lemma IncrementalMove_bound:
  assumes "IncrementalMove d v = Inr v'" and "0 \<le> d"
  shows "euclid (v_position v) (v_position v') \<le> d"
proof -
  from assms(1) have inb: "0 \<le> v_path_index v" "v_path_index v < int (length (v_path v))"
    by (auto simp: IncrementalMove_unfold vector_at_def split: if_splits)
  show ?thesis
  proof (cases "euclid (v_position v) (v_path v ! nat (v_path_index v)) \<le> d")
    case True
    with assms(1) inb show ?thesis
      by (auto simp: IncrementalMove_unfold vector_at_def euclid_def Let_def
          IncrementPathIndex_def SetPosition_fields)
  next
    case False
    with assms inb show ?thesis
      by (auto simp: IncrementalMove_unfold vector_at_def euclid_def Let_def
          SetPosition_fields step_length)
  qed
qed

lemma arrival_test_position:
  assumes "arrival_test m rm g v = Inr (v', calls, g')"
  shows "v_position v' = v_position v"
  using assms
  by (auto simp: arrival_test_def ResetVehicleDestination_eq ArrivedAtPassenger_def
      DropOffPassenger_def Vehicle_DropOffPassenger_def SetState_def Let_def
      split: if_splits sum.splits option.splits prod.splits)

lemma euclid_self: "euclid a a = 0"
  by (simp add: euclid_def)

lemma Drive_vehicle_bound:
  assumes "Drive_vehicle m plan rm d g v = Inr (v', calls, g')" and "0 \<le> d"
  shows "euclid (v_position v) (v_position v') \<le> d"
proof -
  define routed where "routed = (if v_path v = [] then AStarSearch plan v else v)"
  have pr: "v_position routed = v_position v"
    by (simp add: routed_def AStarSearch_def)
  show ?thesis
  proof (cases "v_path v = [] \<and> v_path routed = []")
    case True
    with assms show ?thesis
      by (auto simp: Drive_vehicle_def routed_def ResetVehicleDestination_eq
          AStarSearch_def euclid_self)
  next
    case False
    define asked where "asked = (if v_state routed = no_passenger_requested
                then RequestPassenger rm routed else (routed, []))"
    have pa: "v_position (fst asked) = v_position v"
      using pr by (simp add: asked_def RequestPassenger_def SetState_def Let_def)
    show ?thesis
    proof (cases "v_state (fst asked) = waiting")
      case True
      with False assms pa show ?thesis
        by (auto simp: Drive_vehicle_def routed_def[symmetric] asked_def[symmetric]
            euclid_self Let_def split: prod.splits)
    next
      case w: False
      with False assms obtain v3 where
        mv: "IncrementalMove d (fst asked) = Inr v3" and
        ar: "arrival_test m rm g v3 = Inr (v', drop (length (snd asked)) calls, g')"
        by (auto simp: Drive_vehicle_def routed_def[symmetric] asked_def[symmetric]
            Let_def split: prod.splits sum.splits)
      from IncrementalMove_bound[OF mv assms(2)] arrival_test_position[OF ar] pa
      show ?thesis by simp
    qed
  qed
qed

lemma GenerateNew_frame:
  "m_model (GenerateNew s) = m_model s"
  "m_distance_per_cycle (GenerateNew s) = m_distance_per_cycle s"
  "m_ride_matcher (GenerateNew s) = m_ride_matcher s"
  by (simp_all add: GenerateNew_def Let_def split: prod.splits)

lemma funpow_GenerateNew_model: "m_model ((GenerateNew ^^ n) s) = m_model s"
  by (induction n) (simp_all add: GenerateNew_frame)

lemma VehicleManager_new_frame:
  "m_model (VehicleManager_new model n idCnt rm g) = model"
  "m_distance_per_cycle (VehicleManager_new model n idCnt rm g)
     = \<bar>MaxLat model - MinLat model\<bar> / 1000"
  by (simp_all add: VehicleManager_new_def Let_def funpow_GenerateNew_model)

lemma Drive_frame:
  assumes "Drive plan s = Inr (s', calls)"
  shows "m_model s' = m_model s" "m_distance_per_cycle s' = m_distance_per_cycle s"
    "m_ride_matcher s' = m_ride_matcher s"
  using assms by (auto simp: Drive_def split: sum.splits prod.splits)

lemma AssignPassenger_frame:
  assumes "AssignPassenger s i c = Inr s'"
  shows "m_model s' = m_model s" "m_distance_per_cycle s' = m_distance_per_cycle s"
    "m_ride_matcher s' = m_ride_matcher s"
  using assms by (auto simp: AssignPassenger_def Let_def split: sum.splits prod.splits)

lemma PassengerIntoVehicle_frame:
  assumes "PassengerIntoVehicle s i p = Inr s'"
  shows "m_model s' = m_model s" "m_distance_per_cycle s' = m_distance_per_cycle s"
    "m_ride_matcher s' = m_ride_matcher s"
  using assms by (auto simp: PassengerIntoVehicle_def Let_def split: sum.splits prod.splits)

lemma reachable_distance_per_cycle:
  assumes "reachable plan s"
  shows "m_distance_per_cycle s = \<bar>MaxLat (m_model s) - MinLat (m_model s)\<bar> / 1000"
  using assms
  by (induction rule: reachable.induct)
     (simp_all add: VehicleManager_new_frame Drive_frame AssignPassenger_frame
        PassengerIntoVehicle_frame)

lemma fleet_eq:
  "fleet = \<lparr>m_model = two_nodes, m_vehicles = [taxi], m_distance_per_cycle = 3,
     m_idCnt = 1, m_ride_matcher = True, m_rng = 2\<rparr>"
  by (simp add: fleet_def VehicleManager_new_def GenerateNew_def GetRandomMapPosition_def
      two_nodes_def taxi_def new_Vehicle_def SetPosition_def SetDestination_def
      ResetPathAndIndex_def SetId_def Let_def node_a_def node_b_def)

lemma SetPassenger_variants_agree:
  "ResetVehicleDestination m g (SetPassenger_via_SetDestination v p) r
     = ResetVehicleDestination m g (SetPassenger v p) r"
  by (simp add: ResetVehicleDestination_eq SetPassenger_def SetPassenger_via_SetDestination_def
      SetDestination_def ResetPathAndIndex_def)

lemma cast_int_fits:
  assumes "\<bar>r\<bar> < 2147483648"
  shows "cast_int r = Some (trunc r)"
proof -
  have "- 2147483648 \<le> trunc r \<and> trunc r \<le> 2147483647"
    using assms by (auto simp: trunc_def abs_if split: if_splits)
  then show ?thesis
    by (simp add: cast_int_def Let_def)
qed

lemma circle_centre_eq:
  assumes "b0 \<noteq> 0" and "b1 \<noteq> 0"
    and "\<bar>f_mul ar (f_div ar a0 b0) w\<bar> < 2147483648"
    and "\<bar>f_mul ar (f_div ar a1 b1) h\<bar> < 2147483648"
  shows "circle_centre ar (fdiv ar a0 b0) (fdiv ar a1 b1) h w =
     Some (trunc (f_mul ar (f_div ar a0 b0) w), trunc (f_mul ar (f_div ar a1 b1) h))"
  using assms by (simp add: circle_centre_def fdiv_def cast_int_fits)

lemma wide_pixel:
  "product_x binary32 wide 108 7 = 16515071 / 262144" "product_y binary32 wide 4 1 = 3"
  by (simp_all add: product_x_def product_y_def wide_def binary32_def ieee_def float_7 float_12
      float_7_12 float_108 float_7_12_108 float_3 float_4 float_three_quarters)

lemma GenerateNew_vehicles:
  "\<exists>v. m_vehicles (GenerateNew s) = m_vehicles s @ [v]
      \<and> v_passenger v = None \<and> v_state v = no_passenger_requested \<and> v_path v = []
      \<and> (\<exists>c. v_destination v = FindClosestNode (m_model s) c)"
  by (auto simp: GenerateNew_def GetRandomMapPosition_def Let_def new_Vehicle_def
      SetPosition_def SetDestination_def ResetPathAndIndex_def SetId_def Coordinate_eta)

lemma funpow_GenerateNew_vehicles:
  assumes "v \<in> set (m_vehicles ((GenerateNew ^^ n) s))"
  shows "v \<in> set (m_vehicles s)
     \<or> (v_passenger v = None \<and> v_state v = no_passenger_requested \<and> v_path v = []
        \<and> (\<exists>c. v_destination v = FindClosestNode (m_model s) c))"
  using assms
proof (induction n arbitrary: v)
  case 0
  then show ?case by simp
next
  case (Suc n)
  obtain w where w: "m_vehicles (GenerateNew ((GenerateNew ^^ n) s))
        = m_vehicles ((GenerateNew ^^ n) s) @ [w]"
    "v_passenger w = None" "v_state w = no_passenger_requested" "v_path w = []"
    "\<exists>c. v_destination w = FindClosestNode (m_model ((GenerateNew ^^ n) s)) c"
    using GenerateNew_vehicles by blast
  from Suc.prems w(1) have "v \<in> set (m_vehicles ((GenerateNew ^^ n) s)) \<or> v = w"
    by auto
  then show ?case
  proof
    assume "v \<in> set (m_vehicles ((GenerateNew ^^ n) s))"
    then show ?thesis by (rule Suc.IH)
  next
    assume "v = w"
    with w show ?thesis by (simp add: funpow_GenerateNew_model)
  qed
qed

lemma VehicleManager_new_vehicles:
  assumes "v \<in> set (m_vehicles (VehicleManager_new model n idCnt rm g))"
  shows "v_passenger v = None \<and> v_state v = no_passenger_requested \<and> v_path v = []
        \<and> (\<exists>c. v_destination v = FindClosestNode model c)"
proof -
  let ?s = "\<lparr>m_model = model, m_vehicles = [], m_distance_per_cycle = 0,
                m_idCnt = idCnt, m_ride_matcher = rm, m_rng = g\<rparr>"
  from assms have "v \<in> set (m_vehicles ((GenerateNew ^^ n) ?s))"
    by (simp add: VehicleManager_new_def Let_def)
  from funpow_GenerateNew_vehicles [OF this] show ?thesis by simp
qed

lemma Drive_loop_preserves:
  assumes step: "\<And>g v v' calls g'. P v \<Longrightarrow> Drive_vehicle m plan rm d g v = Inr (v', calls, g') \<Longrightarrow> P v'"
    and "\<forall>v \<in> set vs. P v" and "Drive_loop m plan rm d g vs = Inr (vs', calls, g')"
  shows "\<forall>v \<in> set vs'. P v"
  using assms(2,3)
proof (induction vs arbitrary: g vs' calls g')
  case Nil
  then show ?case by simp
next
  case (Cons v vs)
  from Cons.prems(2) obtain v1 c1 g1 rest c2 where
    a: "Drive_vehicle m plan rm d g v = Inr (v1, c1, g1)" and
    b: "Drive_loop m plan rm d g1 vs = Inr (rest, c2, g')" and
    c: "vs' = v1 # rest"
    by (auto split: sum.splits prod.splits)
  from Cons.prems(1) have "P v" by simp
  with a have "P v1" by (rule step[rotated])
  moreover from Cons.prems(1) have "\<forall>x\<in>set vs. P x" by simp
  then have "\<forall>x\<in>set rest. P x" using b by (rule Cons.IH)
  ultimately show ?case using c by simp
qed

lemma Drive_preserves:
  assumes step: "\<And>g v v' calls g'. P v \<Longrightarrow>
      Drive_vehicle (m_model s) plan (m_ride_matcher s) (m_distance_per_cycle s) g v
        = Inr (v', calls, g') \<Longrightarrow> P v'"
    and "\<forall>v \<in> set (m_vehicles s). P v" and "Drive plan s = Inr (s', calls)"
  shows "\<forall>v \<in> set (m_vehicles s'). P v"
proof -
  from assms(3) obtain vs c g where
    l: "Drive_loop (m_model s) plan (m_ride_matcher s) (m_distance_per_cycle s) (m_rng s)
          (m_vehicles s) = Inr (vs, c, g)" and s': "m_vehicles s' = vs"
    by (auto simp: Drive_def split: sum.splits prod.splits)
  from Drive_loop_preserves [of P, OF step assms(2) l] s' show ?thesis
    by simp
qed

lemma update_preserves:
  assumes "\<forall>v \<in> set vs. P v" and "P w"
  shows "\<forall>v \<in> set (vs[k := w]). P v"
  using assms set_update_subset_insert [of vs k w] by blast

lemma IncrementalMove_arg_eq:
  "IncrementalMove_arg plan rm v =
     (if v_path (before_move plan v) = [] \<or> v_state (before_move plan v) = waiting then None
      else Some (before_move plan v))"
  by (auto simp: IncrementalMove_arg_def before_move_def AStarSearch_def RequestPassenger_def
      SetState_def Let_def)

lemma Drive_vehicle_Inr_cases:
  assumes "Drive_vehicle m plan rm d g v = Inr (v', calls, g')"
  shows "(v_path (before_move plan v) = []
            \<and> v' = v\<lparr>v_destination := FindClosestNode m (RandomMapPosition m g),
                     v_path := [], v_path_index := 0\<rparr>)
       \<or> (v_path (before_move plan v) \<noteq> [] \<and> v_state (before_move plan v) = waiting
            \<and> v' = before_move plan v)
       \<or> (v_path (before_move plan v) \<noteq> [] \<and> v_state (before_move plan v) \<noteq> waiting
            \<and> (\<exists>v3 c. IncrementalMove d (before_move plan v) = Inr v3
                  \<and> arrival_test m rm g v3 = Inr (v', c, g')))"
proof -
  define routed where "routed = (if v_path v = [] then AStarSearch plan v else v)"
  define asked where "asked = (if v_state routed = no_passenger_requested
                then RequestPassenger rm routed else (routed, []))"
  have b: "fst asked = before_move plan v"
    by (auto simp: asked_def routed_def before_move_def AStarSearch_def RequestPassenger_def
        SetState_def Let_def)
  have pe: "(v_path v = [] \<and> v_path routed = []) = (v_path (before_move plan v) = [])"
    by (auto simp: routed_def before_move_def AStarSearch_def)
  show ?thesis
  proof (cases "v_path (before_move plan v) = []")
    case True
    with assms pe show ?thesis
      by (auto simp: Drive_vehicle_def routed_def ResetVehicleDestination_eq AStarSearch_def)
  next
    case False
    with pe have ne: "\<not> (v_path v = [] \<and> v_path routed = [])" by simp
    from assms ne have
      "(case asked of (vehicle, calls) \<Rightarrow>
          if v_state vehicle = waiting then Inr (vehicle, calls, g)
          else (case IncrementalMove d vehicle of Inl e \<Rightarrow> Inl e
                | Inr vehicle \<Rightarrow>
                    (case arrival_test m rm g vehicle of Inl e \<Rightarrow> Inl e
                     | Inr (vehicle, calls2, g1) \<Rightarrow> Inr (vehicle, calls @ calls2, g1))))
        = Inr (v', calls, g')"
      unfolding Drive_vehicle_def routed_def[symmetric] asked_def[symmetric] Let_def
      by simp
    with False b show ?thesis
      by (cases asked) (auto split: if_splits sum.splits prod.splits)
  qed
qed

lemma IncrementalMove_frame:
  assumes "IncrementalMove d v = Inr v'"
  shows "v_state v' = v_state v" "v_destination v' = v_destination v" "v_path v' = v_path v"
    "(v_passenger v' = None) = (v_passenger v = None)"
    "0 \<le> v_path_index v" "v_path_index v < int (length (v_path v))"
    "v_path_index v' = v_path_index v
       \<or> (v_path_index v' = v_path_index v + 1
          \<and> v_position v' = v_path v ! nat (v_path_index v))"
  using assms
  by (auto simp: IncrementalMove_unfold vector_at_def Let_def IncrementPathIndex_def
      SetPosition_fields Coordinate_eta split: if_splits)

lemma arrival_test_carrying:
  assumes "carrying_iff_driving v" and "arrival_test m rm g v = Inr (v', calls, g')"
  shows "carrying_iff_driving v'"
  using assms
  by (auto simp: carrying_iff_driving_def arrival_test_def ResetVehicleDestination_eq
      ArrivedAtPassenger_def DropOffPassenger_def Vehicle_DropOffPassenger_def SetState_def
      Let_def split: if_splits option.splits)

lemma Drive_vehicle_carrying:
  assumes "carrying_iff_driving v" and "Drive_vehicle m plan rm d g v = Inr (v', calls, g')"
  shows "carrying_iff_driving v'"
proof -
  from assms(1) have b: "carrying_iff_driving (before_move plan v)"
    by (auto simp: carrying_iff_driving_def before_move_def)
  from Drive_vehicle_Inr_cases [OF assms(2)] show ?thesis
  proof (elim disjE conjE exE)
    assume "v' = v\<lparr>v_destination := FindClosestNode m (RandomMapPosition m g),
                     v_path := [], v_path_index := 0\<rparr>"
    with assms(1) show ?thesis by (simp add: carrying_iff_driving_def)
  next
    assume "v' = before_move plan v"
    with b show ?thesis by simp
  next
    fix v3 c
    assume mv: "IncrementalMove d (before_move plan v) = Inr v3"
      and ar: "arrival_test m rm g v3 = Inr (v', c, g')"
    from b IncrementalMove_frame(1,4) [OF mv] have "carrying_iff_driving v3"
      by (simp add: carrying_iff_driving_def)
    then show ?thesis using ar by (rule arrival_test_carrying)
  qed
qed

lemma AssignPassenger_in_range:
  assumes "0 \<le> i" and "i < int (length (m_vehicles s))"
  shows "AssignPassenger s i pickup =
     Inr (s\<lparr>m_vehicles := (m_vehicles s)
            [nat i := (m_vehicles s ! nat i)
               \<lparr>v_destination := FindClosestNode (m_model s) pickup,
                  v_path := [], v_path_index := 0, v_state := passenger_queued\<rparr>]\<rparr>)"
  using assms
  by (simp add: AssignPassenger_def vector_at_def ResetVehicleDestination_eq
      SetDestination_def ResetPathAndIndex_def SetState_def)

lemma PassengerIntoVehicle_in_range:
  assumes "0 \<le> i" and "i < int (length (m_vehicles s))"
  shows "PassengerIntoVehicle s i passenger =
     Inr (s\<lparr>m_vehicles := (m_vehicles s)
            [nat i := (m_vehicles s ! nat i)
               \<lparr>v_passenger := Some passenger,
                  v_destination := FindClosestNode (m_model s) (p_dest passenger),
                  v_path := [], v_path_index := 0, v_state := driving_passenger\<rparr>]\<rparr>)"
  using assms
  by (simp add: PassengerIntoVehicle_def vector_at_def ResetVehicleDestination_eq
      SetPassenger_def GetDestination_def SetState_def)

lemma AssignPassenger_vehicles:
  assumes "AssignPassenger s i pickup = Inr s'"
  shows "0 \<le> i" "i < int (length (m_vehicles s))"
    "m_vehicles s' = (m_vehicles s)
            [nat i := (m_vehicles s ! nat i)
               \<lparr>v_destination := FindClosestNode (m_model s) pickup,
                  v_path := [], v_path_index := 0, v_state := passenger_queued\<rparr>]"
proof -
  from assms show i: "0 \<le> i" "i < int (length (m_vehicles s))"
    by (auto simp: AssignPassenger_def vector_at_def split: if_splits)
  from assms show "m_vehicles s' = (m_vehicles s)
            [nat i := (m_vehicles s ! nat i)
               \<lparr>v_destination := FindClosestNode (m_model s) pickup,
                  v_path := [], v_path_index := 0, v_state := passenger_queued\<rparr>]"
    unfolding AssignPassenger_in_range [OF i] by auto
qed

lemma PassengerIntoVehicle_vehicles:
  assumes "PassengerIntoVehicle s i passenger = Inr s'"
  shows "0 \<le> i" "i < int (length (m_vehicles s))"
    "m_vehicles s' = (m_vehicles s)
            [nat i := (m_vehicles s ! nat i)
               \<lparr>v_passenger := Some passenger,
                  v_destination := FindClosestNode (m_model s) (p_dest passenger),
                  v_path := [], v_path_index := 0, v_state := driving_passenger\<rparr>]"
proof -
  from assms show i: "0 \<le> i" "i < int (length (m_vehicles s))"
    by (auto simp: PassengerIntoVehicle_def vector_at_def split: if_splits)
  from assms show "m_vehicles s' = (m_vehicles s)
            [nat i := (m_vehicles s ! nat i)
               \<lparr>v_passenger := Some passenger,
                  v_destination := FindClosestNode (m_model s) (p_dest passenger),
                  v_path := [], v_path_index := 0, v_state := driving_passenger\<rparr>]"
    unfolding PassengerIntoVehicle_in_range [OF i] by auto
qed

lemma reachable_in_protocol_carrying:
  assumes "reachable_in_protocol plan s"
  shows "\<forall>v \<in> set (m_vehicles s). carrying_iff_driving v"
  using assms
proof (induction rule: reachable_in_protocol.induct)
  case (p_constructed model n idCnt matcher g)
  show ?case
    using VehicleManager_new_vehicles [of _ model n idCnt matcher g]
    by (auto simp: carrying_iff_driving_def)
next
  case (p_drive_tick s s' calls)
  from Drive_preserves [of carrying_iff_driving, OF Drive_vehicle_carrying p_drive_tick.IH
      p_drive_tick.hyps(2)]
  show ?case .
next
  case (p_assign_passenger s i vehicle position s')
  from p_assign_passenger.hyps(2) have v: "vehicle = m_vehicles s ! nat i"
    by (auto simp: vector_at_def split: if_splits)
  have "carrying_iff_driving ((m_vehicles s ! nat i)
        \<lparr>v_destination := FindClosestNode (m_model s) position,
           v_path := [], v_path_index := 0, v_state := passenger_queued\<rparr>)"
    using p_assign_passenger.hyps(3) v by (simp add: carrying_iff_driving_def)
  with update_preserves [OF p_assign_passenger.IH]
    AssignPassenger_vehicles(3) [OF p_assign_passenger.hyps(4)]
  show ?case by simp
next
  case (p_passenger_into_vehicle s i passenger s')
  have "carrying_iff_driving ((m_vehicles s ! nat i)
        \<lparr>v_passenger := Some passenger,
           v_destination := FindClosestNode (m_model s) (p_dest passenger),
           v_path := [], v_path_index := 0, v_state := driving_passenger\<rparr>)"
    by (simp add: carrying_iff_driving_def)
  with update_preserves [OF p_passenger_into_vehicle.IH]
    PassengerIntoVehicle_vehicles(3) [OF p_passenger_into_vehicle.hyps(2)]
  show ?case by simp
next
  case (p_drop_off s k vehicle g)
  from p_drop_off.hyps(3) have "carrying_iff_driving vehicle"
    by (auto simp: carrying_iff_driving_def DropOffPassenger_def Vehicle_DropOffPassenger_def
        ResetVehicleDestination_eq SetState_def split: option.splits)
  with update_preserves [OF p_drop_off.IH] show ?case by simp
qed

lemma before_move_in_bounds:
  assumes "planner_reaches_goal m plan" and "path_in_bounds m v"
  shows "path_in_bounds m (before_move plan v)"
proof -
  from assms(2) obtain c where c: "v_destination v = FindClosestNode m c"
    by (auto simp: path_in_bounds_def)
  show ?thesis
  proof (cases "v_path v = []")
    case True
    from assms(1) have "plan (v_position v) (FindClosestNode m c) = []
        \<or> last (plan (v_position v) (FindClosestNode m c)) = FindClosestNode m c"
      unfolding planner_reaches_goal_def by blast
    with True c show ?thesis
      by (auto simp: path_in_bounds_def before_move_def)
  next
    case False
    with assms(2) show ?thesis
      by (auto simp: path_in_bounds_def before_move_def)
  qed
qed

lemma before_move_state: "v_state (before_move plan v) \<noteq> no_passenger_requested"
  by (simp add: before_move_def)

lemma in_bounds_index:
  assumes "path_in_bounds m v" and "v_path v \<noteq> []" and "v_state v \<noteq> waiting"
  shows "0 \<le> v_path_index v \<and> v_path_index v < int (length (v_path v))"
  using assms by (auto simp: path_in_bounds_def)

lemma arrival_test_in_bounds:
  assumes "\<exists>c. v_destination v = FindClosestNode m c" and "v_path v \<noteq> []"
    and "last (v_path v) = v_destination v" and "0 \<le> v_path_index v"
    and "v_path_index v < int (length (v_path v))
         \<or> (v_path_index v = int (length (v_path v)) \<and> v_position v = v_destination v)"
    and "v_state v \<noteq> waiting" and "v_state v \<noteq> no_passenger_requested"
    and "arrival_test m rm g v = Inr (v', calls, g')"
  shows "path_in_bounds m v'"
proof (cases "v_position v = v_destination v")
  case True
  from assms(6,7) consider "v_state v = no_passenger_queued" | "v_state v = passenger_queued"
    | "v_state v = driving_passenger"
    by (cases "v_state v") auto
  then show ?thesis
  proof cases
    case 1
    with True assms(8) show ?thesis
      by (auto simp: arrival_test_def ResetVehicleDestination_eq path_in_bounds_def)
  next
    case 2
    with True assms(8) have "v' = v\<lparr>v_state := waiting\<rparr>"
      by (auto simp: arrival_test_def ArrivedAtPassenger_def SetState_def Let_def
          split: if_splits)
    with assms(1-5) show ?thesis
      by (auto simp: path_in_bounds_def)
  next
    case 3
    with True assms(8) show ?thesis
      by (auto simp: arrival_test_def DropOffPassenger_def Vehicle_DropOffPassenger_def
          ResetVehicleDestination_eq SetState_def path_in_bounds_def split: option.splits)
  qed
next
  case False
  with assms(8) have "v' = v" by (simp add: arrival_test_def)
  with False assms(1-5) show ?thesis
    by (auto simp: path_in_bounds_def)
qed

lemma Drive_vehicle_in_bounds:
  assumes "planner_reaches_goal m plan" and "path_in_bounds m v"
    and "Drive_vehicle m plan rm d g v = Inr (v', calls, g')"
  shows "path_in_bounds m v'"
proof -
  note b = before_move_in_bounds [OF assms(1,2)]
  from Drive_vehicle_Inr_cases [OF assms(3)] show ?thesis
  proof (elim disjE conjE exE)
    assume "v' = v\<lparr>v_destination := FindClosestNode m (RandomMapPosition m g),
                     v_path := [], v_path_index := 0\<rparr>"
    then show ?thesis by (auto simp: path_in_bounds_def)
  next
    assume "v' = before_move plan v"
    with b show ?thesis by simp
  next
    fix v3 c
    let ?v2 = "before_move plan v"
    assume ne: "v_path ?v2 \<noteq> []" and nw: "v_state ?v2 \<noteq> waiting"
      and mv: "IncrementalMove d ?v2 = Inr v3"
      and ar: "arrival_test m rm g v3 = Inr (v', c, g')"
    note f = IncrementalMove_frame [OF mv]
    from b ne have l: "last (v_path ?v2) = v_destination ?v2"
      and dst: "\<exists>c. v_destination ?v2 = FindClosestNode m c"
      by (auto simp: path_in_bounds_def)
    have idx: "v_path_index v3 < int (length (v_path v3))
         \<or> (v_path_index v3 = int (length (v_path v3)) \<and> v_position v3 = v_destination v3)"
    proof (cases "v_path_index v3 = v_path_index ?v2")
      case True
      with f(3,6) show ?thesis by simp
    next
      case False
      with f(7) have s: "v_path_index v3 = v_path_index ?v2 + 1"
        "v_position v3 = v_path ?v2 ! nat (v_path_index ?v2)" by auto
      show ?thesis
      proof (cases "v_path_index v3 < int (length (v_path v3))")
        case True
        then show ?thesis by simp
      next
        case False
        with s(1) f(3,5,6) have e: "nat (v_path_index ?v2) = length (v_path ?v2) - 1"
          "v_path_index v3 = int (length (v_path v3))"
          by auto
        from s(2) e(1) ne l f(2) have "v_position v3 = v_destination v3"
          by (simp add: last_conv_nth)
        with e(2) show ?thesis by simp
      qed
    qed
    from f(5,7) have nn: "0 \<le> v_path_index v3" by auto
    from arrival_test_in_bounds [OF _ _ _ nn idx _ _ ar] f(1,2,3) ne nw l dst
      before_move_state [of plan v]
    show ?thesis by simp
  qed
qed

lemma reachable_in_bounds:
  assumes "reachable plan s" and "planner_reaches_goal (m_model s) plan"
  shows "\<forall>v \<in> set (m_vehicles s). path_in_bounds (m_model s) v"
  using assms
proof (induction rule: reachable.induct)
  case (constructed model n idCnt matcher g)
  show ?case
    using VehicleManager_new_vehicles [of _ model n idCnt matcher g]
    by (auto simp: path_in_bounds_def VehicleManager_new_frame)
next
  case (drive_tick s s' calls)
  note fr = Drive_frame [OF drive_tick.hyps(2)]
  from drive_tick.prems fr have pl: "planner_reaches_goal (m_model s) plan" by simp
  from Drive_preserves [of "path_in_bounds (m_model s)", OF Drive_vehicle_in_bounds [OF pl]
      drive_tick.IH [OF pl] drive_tick.hyps(2)] fr
  show ?case by simp
next
  case (assign_passenger s i position s')
  note fr = AssignPassenger_frame [OF assign_passenger.hyps(2)]
  from assign_passenger.prems fr have pl: "planner_reaches_goal (m_model s) plan" by simp
  have "path_in_bounds (m_model s) ((m_vehicles s ! nat i)
        \<lparr>v_destination := FindClosestNode (m_model s) position,
           v_path := [], v_path_index := 0, v_state := passenger_queued\<rparr>)"
    by (auto simp: path_in_bounds_def)
  with update_preserves [OF assign_passenger.IH [OF pl]]
    AssignPassenger_vehicles(3) [OF assign_passenger.hyps(2)] fr
  show ?case by simp
next
  case (passenger_into_vehicle s i passenger s')
  note fr = PassengerIntoVehicle_frame [OF passenger_into_vehicle.hyps(2)]
  from passenger_into_vehicle.prems fr have pl: "planner_reaches_goal (m_model s) plan"
    by simp
  have "path_in_bounds (m_model s) ((m_vehicles s ! nat i)
        \<lparr>v_passenger := Some passenger,
           v_destination := FindClosestNode (m_model s) (p_dest passenger),
           v_path := [], v_path_index := 0, v_state := driving_passenger\<rparr>)"
    by (auto simp: path_in_bounds_def)
  with update_preserves [OF passenger_into_vehicle.IH [OF pl]]
    PassengerIntoVehicle_vehicles(3) [OF passenger_into_vehicle.hyps(2)] fr
  show ?case by simp
next
  case (drop_off s k vehicle g)
  from drop_off.prems have pl: "planner_reaches_goal (m_model s) plan" by simp
  from drop_off.hyps(3) have "path_in_bounds (m_model s) vehicle"
    by (auto simp: path_in_bounds_def DropOffPassenger_def Vehicle_DropOffPassenger_def
        ResetVehicleDestination_eq SetState_def split: option.splits)
  with update_preserves [OF drop_off.IH [OF pl]] show ?case by simp
qed

lemma arrival_test_not_out_of_range: "arrival_test m rm g v \<noteq> Inl out_of_range"
  by (auto simp: arrival_test_def ArrivedAtPassenger_def DropOffPassenger_def
      ResetVehicleDestination_eq Let_def split: option.splits)

lemma IncrementalMove_in_range:
  assumes "0 \<le> v_path_index v" and "v_path_index v < int (length (v_path v))"
  shows "IncrementalMove d v \<noteq> Inl out_of_range"
  using assms by (simp add: IncrementalMove_unfold vector_at_def Let_def)

lemma Drive_vehicle_out_of_range:
  assumes "Drive_vehicle m plan rm d g v = Inl out_of_range"
  shows "\<exists>v2. IncrementalMove_arg plan rm v = Some v2 \<and> IncrementalMove d v2 = Inl out_of_range"
proof -
  define routed where "routed = (if v_path v = [] then AStarSearch plan v else v)"
  define asked where "asked = (if v_state routed = no_passenger_requested
                then RequestPassenger rm routed else (routed, []))"
  have b: "fst asked = before_move plan v"
    by (auto simp: asked_def routed_def before_move_def AStarSearch_def RequestPassenger_def
        SetState_def Let_def)
  have pe: "(v_path v = [] \<and> v_path routed = []) = (v_path (before_move plan v) = [])"
    by (auto simp: routed_def before_move_def AStarSearch_def)
  from assms have ne: "\<not> (v_path v = [] \<and> v_path routed = [])"
    by (auto simp: Drive_vehicle_def routed_def ResetVehicleDestination_eq)
  from assms ne have
      "(case asked of (vehicle, calls) \<Rightarrow>
          if v_state vehicle = waiting then Inr (vehicle, calls, g)
          else (case IncrementalMove d vehicle of Inl e \<Rightarrow> Inl e
                | Inr vehicle \<Rightarrow>
                    (case arrival_test m rm g vehicle of Inl e \<Rightarrow> Inl e
                     | Inr (vehicle, calls2, g1) \<Rightarrow> Inr (vehicle, calls @ calls2, g1))))
        = Inl out_of_range"
    unfolding Drive_vehicle_def routed_def[symmetric] asked_def[symmetric] Let_def
    by simp
  with b arrival_test_not_out_of_range
  have "v_state (before_move plan v) \<noteq> waiting
      \<and> IncrementalMove d (before_move plan v) = Inl out_of_range"
    by (cases asked) (auto split: if_splits sum.splits prod.splits)
  with ne pe show ?thesis
    by (simp add: IncrementalMove_arg_eq)
qed

lemma move_arg_in_range:
  assumes "planner_reaches_goal m plan" and "path_in_bounds m v"
    and "IncrementalMove_arg plan rm v = Some v2"
  shows "v_path v2 \<noteq> [] \<and> 0 \<le> v_path_index v2 \<and> v_path_index v2 < int (length (v_path v2))"
proof -
  from assms(3) have v2: "v2 = before_move plan v" "v_path v2 \<noteq> []" "v_state v2 \<noteq> waiting"
    by (auto simp: IncrementalMove_arg_eq split: if_splits)
  from before_move_in_bounds [OF assms(1,2)] v2 in_bounds_index [of m v2] show ?thesis
    by simp
qed

lemma Drive_loop_in_range:
  assumes "planner_reaches_goal m plan" and "\<forall>v \<in> set vs. path_in_bounds m v"
  shows "Drive_loop m plan rm d g vs \<noteq> Inl out_of_range"
  using assms(2)
proof (induction vs arbitrary: g)
  case Nil
  then show ?case by simp
next
  case (Cons v vs)
  have "Drive_vehicle m plan rm d g v \<noteq> Inl out_of_range"
  proof
    assume "Drive_vehicle m plan rm d g v = Inl out_of_range"
    from Drive_vehicle_out_of_range [OF this] obtain v2 where
      a: "IncrementalMove_arg plan rm v = Some v2" and o: "IncrementalMove d v2 = Inl out_of_range"
      by blast
    from Cons.prems have "path_in_bounds m v" by simp
    from move_arg_in_range [OF assms(1) this a] IncrementalMove_in_range [of v2 d] o
    show False by simp
  qed
  moreover from Cons.prems have "\<And>g1. Drive_loop m plan rm d g1 vs \<noteq> Inl out_of_range"
    by (intro Cons.IH) simp
  ultimately show ?case
    by (auto split: sum.splits prod.splits)
qed

lemma fleet_boards: "PassengerIntoVehicle fleet 0 rider = Inr boarded"
  by (simp add: boarded_def fleet_eq PassengerIntoVehicle_def vector_at_def
      ResetVehicleDestination_eq SetPassenger_def GetDestination_def SetState_def two_nodes_def
      taxi_def new_Vehicle_def rider_def)

lemma boarded_assigned: "AssignPassenger boarded 0 node_a = Inr overbooked"
  by (simp add: boarded_def overbooked_def fleet_eq AssignPassenger_def vector_at_def
      ResetVehicleDestination_eq SetDestination_def ResetPathAndIndex_def SetState_def
      two_nodes_def taxi_def new_Vehicle_def node_a_def)

lemma two_nodes_plan_reaches_goal: "planner_reaches_goal two_nodes two_nodes_plan"
  by (simp add: planner_reaches_goal_def two_nodes_plan_def two_nodes_def node_a_def node_b_def)

lemma fleet_drives:
  "Drive two_nodes_plan fleet =
     Inr (fleet\<lparr>m_vehicles := [taxi\<lparr>v_position := \<lparr>c_x = 7, c_y = 0\<rparr>, v_path := [node_a],
                                      v_state := no_passenger_queued\<rparr>]\<rparr>,
          [VehicleRequestsPassenger 0])"
  by (simp add: fleet_eq Drive_def Drive_vehicle_def AStarSearch_def two_nodes_plan_def
      two_nodes_def taxi_def new_Vehicle_def node_a_def node_b_def RequestPassenger_def
      SetState_def IncrementalMove_unfold vector_at_def sqrt100 atan2_def SetPosition_def
      arrival_test_def Let_def)

lemma taxi_move_arg:
  "IncrementalMove_arg two_nodes_plan True taxi =
     Some (taxi\<lparr>v_path := [node_a], v_state := no_passenger_queued\<rparr>)"
  by (simp add: IncrementalMove_arg_def AStarSearch_def two_nodes_plan_def two_nodes_def
      taxi_def new_Vehicle_def node_a_def node_b_def RequestPassenger_def SetState_def Let_def)

lemma double_zero: "round_to 53 (- 1022) 0 = 0"
  by (simp add: round_to_def)

lemma short_hop_snaps:
  "IncrementalMove_in binary64 (1 / 2) short_hop =
     Inr (short_hop\<lparr>v_position := \<lparr>c_x = double_0_3, c_y = double_0_4\<rparr>, v_path_index := 1\<rparr>)"
  by (simp add: IncrementalMove_in_def binary64_def ieee_def short_hop_def new_Vehicle_def
      origin_def vector_at_def double_0_3_exact double_0_4_exact double_0_3_squared
      double_0_4_squared double_sum_quarter sqrt_quarter double_small SetPosition_def
      IncrementPathIndex_def Let_def)

lemma short_hop_far: "1 / 2 < euclid (v_position short_hop) \<lparr>c_x = double_0_3, c_y = double_0_4\<rparr>"
proof -
  have "(1 / 2 :: real)\<^sup>2 < double_0_3\<^sup>2 + double_0_4\<^sup>2"
    by (simp add: double_0_3_def double_0_4_def power2_eq_square)
  then have "1 / 2 < sqrt (double_0_3\<^sup>2 + double_0_4\<^sup>2)"
    by (rule real_less_rsqrt)
  then show ?thesis
    by (simp add: euclid_def short_hop_def new_Vehicle_def origin_def)
qed

lemma cab_moves_binary64:
  "IncrementalMove_in binary64 3 cab = Inr (cab\<lparr>v_position := \<lparr>c_x = 3, c_y = 0\<rparr>\<rparr>)"
  by (simp add: IncrementalMove_in_def binary64_def ieee_def cab_def new_Vehicle_def
      vector_at_def node_a_def node_b_def origin_def double_small double_zero sqrt100
      atan2_def SetPosition_def Let_def)

lemma short_hop_distance:
  "f_sqrt binary64 (f_add binary64 (f_pow2 binary64 (f_sub binary64 double_0_3 0))
                                   (f_pow2 binary64 (f_sub binary64 double_0_4 0))) = 1 / 2"
  by (simp add: binary64_def ieee_def double_0_3_exact double_0_4_exact double_0_3_squared
      double_0_4_squared double_sum_quarter sqrt_quarter double_small)

lemma Drive_vehicle_unroutable:
  assumes "v_path v = []" and "plan (v_position v) (v_destination v) = []"
  shows "Drive_vehicle m plan rm d g v =
     Inr (v\<lparr>v_destination := FindClosestNode m (RandomMapPosition m g),
            v_path := [], v_path_index := 0\<rparr>, [], Suc g)"
  using assms
  by (simp add: Drive_vehicle_def AStarSearch_def ResetVehicleDestination_eq)

lemma cab_moves: "IncrementalMove 3 cab = Inr (cab\<lparr>v_position := \<lparr>c_x = 3, c_y = 0\<rparr>\<rparr>)"
  by (simp add: IncrementalMove_unfold cab_def new_Vehicle_def vector_at_def node_a_def
      node_b_def origin_def sqrt100 atan2_def SetPosition_def Let_def)

section \<open>Properties\<close>

text \<open>
  Claim C8.  Setting the position of a vehicle that carries a passenger stores the new
  coordinate in the vehicle and in the carried passenger: afterwards the vehicle still
  carries that passenger, whose position equals the vehicle's position; the
  passenger's other fields are untouched.
\<close>

theorem SetPosition_moves_passenger:
  assumes "v_passenger v = Some p"
  shows "v_position (SetPosition v c) = c
       \<and> v_passenger (SetPosition v c) = Some (p\<lparr>p_position := c\<rparr>)
       \<and> map_option p_position (v_passenger (SetPosition v c))
           = Some (v_position (SetPosition v c))"
  using assms by (simp add: SetPosition_def Passenger_SetPosition_def)

theorem SetPosition_moves_passenger_witness:
  "v_passenger (cab\<lparr>v_passenger := Some rider\<rparr>) = Some rider
   \<and> v_position (SetPosition (cab\<lparr>v_passenger := Some rider\<rparr>) node_b) = node_b
   \<and> v_passenger (SetPosition (cab\<lparr>v_passenger := Some rider\<rparr>) node_b)
       = Some (rider\<lparr>p_position := node_b\<rparr>)"
  using SetPosition_moves_passenger [of "cab\<lparr>v_passenger := Some rider\<rparr>" rider node_b]
  by simp

text \<open>
  Claim C1, as the code has it.  One incremental move of a vehicle whose path index is
  in range (so that its path is not empty) returns normally, and in whatever
  arithmetic the machine has: with \<open>next\<close> the path element at the index and \<open>d\<close> the
  distance as the code computes it, \<^verbatim>\<open>sqrt(pow(next.x - pos.x, 2) + pow(next.y - pos.y, 2))\<close>,
  if \<open>d\<close> is at most the distance per cycle the position becomes \<open>next\<close> (the same
  numbers) and the index grows by one; otherwise the position becomes
  \<open>pos + step * (cos \<theta>, sin \<theta>)\<close> as the code computes it, with
  \<open>\<theta> = atan2 (next.y - pos.y) (next.x - pos.x)\<close>, and the index stays.  The computed
  distance is not the Euclidean distance, and the claim fails where they fall on
  different sides of the step: in \<^verbatim>\<open>double\<close> arithmetic, from \<open>(0, 0)\<close> towards
  \<^verbatim>\<open>(0.3, 0.4)\<close> with step \<^verbatim>\<open>0.5\<close>, the computed distance is exactly \<open>1/2\<close> and the
  vehicle snaps with the index incremented, while the Euclidean distance between the
  two points exceeds \<open>1/2\<close>.
\<close>

theorem IncrementalMove_machine_step:
  assumes "0 \<le> v_path_index v" and "v_path_index v < int (length (v_path v))"
  shows "\<exists>v'. IncrementalMove_in ar d v = Inr v' \<and>
     (let pos = v_position v; next = v_path v ! nat (v_path_index v);
          distance = f_sqrt ar (f_add ar (f_pow2 ar (f_sub ar (c_x next) (c_x pos)))
                                        (f_pow2 ar (f_sub ar (c_y next) (c_y pos))));
          angle = f_atan2 ar (f_sub ar (c_y next) (c_y pos)) (f_sub ar (c_x next) (c_x pos))
      in if distance \<le> d
         then v_position v' = next \<and> v_path_index v' = v_path_index v + 1
         else v_position v' = \<lparr>c_x = f_add ar (c_x pos) (f_mul ar d (f_cos ar angle)),
                                c_y = f_add ar (c_y pos) (f_mul ar d (f_sin ar angle))\<rparr>
            \<and> v_path_index v' = v_path_index v)"
  using assms
  by (simp add: IncrementalMove_in_def vector_at_def Let_def IncrementPathIndex_def
      SetPosition_fields)

theorem rounding_flips_branch:
  "IncrementalMove_in binary64 (1 / 2) short_hop =
     Inr (short_hop\<lparr>v_position := \<lparr>c_x = double_0_3, c_y = double_0_4\<rparr>, v_path_index := 1\<rparr>)
   \<and> v_path short_hop ! nat (v_path_index short_hop) = \<lparr>c_x = double_0_3, c_y = double_0_4\<rparr>
   \<and> 1 / 2 < euclid (v_position short_hop) \<lparr>c_x = double_0_3, c_y = double_0_4\<rparr>"
  using short_hop_snaps short_hop_far
  by (simp add: short_hop_def new_Vehicle_def)

theorem IncrementalMove_machine_step_witness:
  "0 \<le> v_path_index cab \<and> v_path_index cab < int (length (v_path cab))
   \<and> IncrementalMove_in binary64 3 cab = Inr (cab\<lparr>v_position := \<lparr>c_x = 3, c_y = 0\<rparr>\<rparr>)
   \<and> IncrementalMove_in binary64 (1 / 2) short_hop =
       Inr (short_hop\<lparr>v_position := \<lparr>c_x = double_0_3, c_y = double_0_4\<rparr>, v_path_index := 1\<rparr>)"
proof -
  have i: "0 \<le> v_path_index cab" "v_path_index cab < int (length (v_path cab))"
    by (simp_all add: cab_def new_Vehicle_def)
  from IncrementalMove_machine_step [OF i, of binary64 3] i cab_moves_binary64 short_hop_snaps
  show ?thesis by simp
qed

text \<open>
  Claim C7.  In every state the manager reaches, the distance per cycle is the value
  fixed by the constructor, \<open>|MaxLat - MinLat| / 1000\<close>, and an incremental move, as
  well as the whole loop body of a drive tick, leaves a vehicle within that Euclidean
  distance of where it was.  (Real arithmetic: no rounding error arises.)
\<close>

theorem step_bounded:
  assumes "reachable plan s"
  shows "m_distance_per_cycle s = \<bar>MaxLat (m_model s) - MinLat (m_model s)\<bar> / 1000
     \<and> (\<forall>v v'. IncrementalMove (m_distance_per_cycle s) v = Inr v'
           \<longrightarrow> euclid (v_position v) (v_position v') \<le> m_distance_per_cycle s)
     \<and> (\<forall>v v' calls g g'.
           Drive_vehicle (m_model s) plan (m_ride_matcher s) (m_distance_per_cycle s) g v
              = Inr (v', calls, g')
           \<longrightarrow> euclid (v_position v) (v_position v') \<le> m_distance_per_cycle s)"
proof -
  have d: "m_distance_per_cycle s = \<bar>MaxLat (m_model s) - MinLat (m_model s)\<bar> / 1000"
    by (rule reachable_distance_per_cycle [OF assms])
  then have "0 \<le> m_distance_per_cycle s" by simp
  with d show ?thesis
    by (auto intro: IncrementalMove_bound Drive_vehicle_bound)
qed

theorem step_bounded_witness:
  "reachable two_nodes_plan fleet \<and> m_distance_per_cycle fleet = 3
   \<and> IncrementalMove (m_distance_per_cycle fleet) cab = Inr (cab\<lparr>v_position := \<lparr>c_x = 3, c_y = 0\<rparr>\<rparr>)
   \<and> euclid (v_position cab) \<lparr>c_x = 3, c_y = 0\<rparr> \<le> m_distance_per_cycle fleet"
proof -
  have r: "reachable two_nodes_plan fleet"
    unfolding fleet_def by (rule reachable.constructed)
  have d: "m_distance_per_cycle fleet = 3"
    by (simp add: fleet_def VehicleManager_new_frame two_nodes_def)
  from step_bounded [OF r] have
    "IncrementalMove (m_distance_per_cycle fleet) cab = Inr (cab\<lparr>v_position := \<lparr>c_x = 3, c_y = 0\<rparr>\<rparr>)
       \<longrightarrow> euclid (v_position cab) (v_position (cab\<lparr>v_position := \<lparr>c_x = 3, c_y = 0\<rparr>\<rparr>))
            \<le> m_distance_per_cycle fleet"
    by blast
  with r d cab_moves show ?thesis
    by simp
qed

text \<open>
  Claim C2.  At the arrival test, a vehicle in state \<^verbatim>\<open>driving_passenger\<close> that stands
  on its destination and carries a passenger is dropped off: the passenger pointer
  is cleared, the failure counter becomes 0, the destination becomes the road node
  closest to a fresh random position (path and index reset), and the state becomes
  \<^verbatim>\<open>no_passenger_requested\<close>; the matcher is not called.  The witness is a vehicle
  with two failures.
\<close>

theorem drop_off_at_destination:
  assumes "v_state v = driving_passenger" and "v_position v = v_destination v"
    and "v_passenger v = Some p"
  shows "arrival_test m rm g v =
     Inr (v\<lparr>v_passenger := None, v_failures := 0,
            v_destination := FindClosestNode m (RandomMapPosition m g),
            v_path := [], v_path_index := 0, v_state := no_passenger_requested\<rparr>, [], Suc g)"
  using assms
  by (simp add: arrival_test_def DropOffPassenger_def Vehicle_DropOffPassenger_def
      ResetVehicleDestination_eq SetState_def)

theorem drop_off_at_destination_witness:
  "v_state cab_arrived = driving_passenger \<and> v_position cab_arrived = v_destination cab_arrived
   \<and> v_passenger cab_arrived = Some rider \<and> v_failures cab_arrived = 2
   \<and> arrival_test two_nodes True 0 cab_arrived =
       Inr (cab_arrived\<lparr>v_passenger := None, v_failures := 0, v_destination := node_b,
              v_path := [], v_path_index := 0, v_state := no_passenger_requested\<rparr>, [], 1)"
proof -
  have h: "v_state cab_arrived = driving_passenger"
    "v_position cab_arrived = v_destination cab_arrived"
    "v_passenger cab_arrived = Some rider"
    by (simp_all add: cab_arrived_def cab_def)
  have f: "v_failures cab_arrived = 2"
    by (simp add: cab_arrived_def)
  have n: "FindClosestNode two_nodes (RandomMapPosition two_nodes 0) = node_b"
    by (simp add: two_nodes_def)
  from drop_off_at_destination [OF h, of two_nodes True 0] h f n show ?thesis
    by simp
qed

text \<open>
  Claim C4.  A vehicle that carries a passenger and gets an empty path from the
  planner is treated like any other: the loop body replaces its destination by the
  road node closest to a fresh random position and ends the iteration.  The vehicle
  stays in \<^verbatim>\<open>driving_passenger\<close> with the passenger aboard, and the matcher is not
  called; the source marks the case \<^verbatim>\<open>TODO: Handle below if holding a passenger\<close>.
  The evaluation is for a vehicle carrying the rider from the first node to the second
  on the map without a road.
\<close>

theorem unroutable_with_passenger:
  "Drive_vehicle two_nodes no_route True 3 1 stuck = Inr (stuck\<lparr>v_destination := node_a\<rparr>, [], 2)
   \<and> v_passenger (stuck\<lparr>v_destination := node_a\<rparr>) = Some rider
   \<and> v_state (stuck\<lparr>v_destination := node_a\<rparr>) \<noteq> no_passenger_requested"
  by (simp add: Drive_vehicle_def AStarSearch_def ResetVehicleDestination_eq no_route_def
      stuck_def new_Vehicle_def two_nodes_def)

text \<open>
  Claim C5, as the code has it.  For an index into the vehicle table,
  \<^verbatim>\<open>AssignPassenger\<close> sets the destination of that vehicle to the road node closest
  to the pickup coordinate (not to the pickup coordinate itself), empties the path,
  sets the index to 0 and the state to \<^verbatim>\<open>passenger_queued\<close>; position, passenger,
  failures, id and every other vehicle stay.  The counterexample is a pickup at
  \<open>(9, 1)\<close>, whose closest node is \<open>(10, 0)\<close>.
\<close>

theorem AssignPassenger_effect:
  assumes "0 \<le> i" and "i < int (length (m_vehicles s))"
  shows "AssignPassenger s i pickup =
     Inr (s\<lparr>m_vehicles := (m_vehicles s)
            [nat i := (m_vehicles s ! nat i)
               \<lparr>v_destination := FindClosestNode (m_model s) pickup,
                  v_path := [], v_path_index := 0, v_state := passenger_queued\<rparr>]\<rparr>)"
  using assms
  by (simp add: AssignPassenger_def vector_at_def ResetVehicleDestination_eq
      SetDestination_def ResetPathAndIndex_def SetState_def)

theorem AssignPassenger_snaps_pickup:
  "AssignPassenger fleet 0 \<lparr>c_x = 9, c_y = 1\<rparr>
     = Inr (fleet\<lparr>m_vehicles := [taxi\<lparr>v_destination := node_b, v_state := passenger_queued\<rparr>]\<rparr>)
   \<and> v_destination (taxi\<lparr>v_destination := node_b, v_state := passenger_queued\<rparr>)
       \<noteq> \<lparr>c_x = 9, c_y = 1\<rparr>"
  by (simp add: fleet_eq AssignPassenger_def vector_at_def ResetVehicleDestination_eq
      SetDestination_def ResetPathAndIndex_def SetState_def two_nodes_def taxi_def
      new_Vehicle_def node_b_def)

theorem AssignPassenger_effect_witness:
  "(0::int) \<le> 0 \<and> 0 < int (length (m_vehicles fleet))
   \<and> AssignPassenger fleet 0 node_b
       = Inr (fleet\<lparr>m_vehicles := [taxi\<lparr>v_destination := node_b, v_state := passenger_queued\<rparr>]\<rparr>)"
proof -
  have h: "(0::int) \<le> 0" "0 < int (length (m_vehicles fleet))"
    by (simp_all add: fleet_eq)
  have n: "FindClosestNode (m_model fleet) node_b = node_b" "m_vehicles fleet = [taxi]"
    by (simp_all add: fleet_eq two_nodes_def node_b_def)
  have e: "taxi\<lparr>v_destination := node_b, v_path := [], v_path_index := 0,
                 v_state := passenger_queued\<rparr>
             = taxi\<lparr>v_destination := node_b, v_state := passenger_queued\<rparr>"
    by (simp add: taxi_def new_Vehicle_def)
  from AssignPassenger_effect [OF h, of node_b] h n e show ?thesis
    by simp
qed

text \<open>
  Claim C6, as the code has it.  For an index into the vehicle table,
  \<^verbatim>\<open>PassengerIntoVehicle\<close> attaches the passenger, sets the destination of the vehicle
  to the road node closest to the passenger's destination (not to that destination
  itself), empties the path, sets the index to 0 and the state to
  \<^verbatim>\<open>driving_passenger\<close>.  The counterexample is a rider bound for \<open>(8, 2)\<close>, whose
  closest node is \<open>(10, 0)\<close>.
\<close>

theorem PassengerIntoVehicle_effect:
  assumes "0 \<le> i" and "i < int (length (m_vehicles s))"
  shows "PassengerIntoVehicle s i passenger =
     Inr (s\<lparr>m_vehicles := (m_vehicles s)
            [nat i := (m_vehicles s ! nat i)
               \<lparr>v_passenger := Some passenger,
                  v_destination := FindClosestNode (m_model s) (p_dest passenger),
                  v_path := [], v_path_index := 0, v_state := driving_passenger\<rparr>]\<rparr>)"
  using assms
  by (simp add: PassengerIntoVehicle_def vector_at_def ResetVehicleDestination_eq
      SetPassenger_def GetDestination_def SetState_def)

theorem PassengerIntoVehicle_snaps_destination:
  "PassengerIntoVehicle fleet 0 rider
     = Inr (fleet\<lparr>m_vehicles := [taxi\<lparr>v_passenger := Some rider, v_destination := node_b,
                                       v_state := driving_passenger\<rparr>]\<rparr>)
   \<and> v_destination (taxi\<lparr>v_passenger := Some rider, v_destination := node_b,
                         v_state := driving_passenger\<rparr>) \<noteq> p_dest rider"
  by (simp add: fleet_eq PassengerIntoVehicle_def vector_at_def ResetVehicleDestination_eq
      SetPassenger_def GetDestination_def SetState_def two_nodes_def taxi_def
      new_Vehicle_def node_a_def node_b_def rider_def)

theorem PassengerIntoVehicle_effect_witness:
  "(0::int) \<le> 0 \<and> 0 < int (length (m_vehicles fleet))
   \<and> PassengerIntoVehicle fleet 0 rider
       = Inr (fleet\<lparr>m_vehicles := [taxi\<lparr>v_passenger := Some rider, v_destination := node_b,
                                         v_state := driving_passenger\<rparr>]\<rparr>)"
proof -
  have h: "(0::int) \<le> 0" "0 < int (length (m_vehicles fleet))"
    by (simp_all add: fleet_eq)
  have n: "FindClosestNode (m_model fleet) (p_dest rider) = node_b" "m_vehicles fleet = [taxi]"
    by (simp_all add: fleet_eq two_nodes_def rider_def)
  have e: "taxi\<lparr>v_passenger := Some rider, v_destination := node_b, v_path := [],
                 v_path_index := 0, v_state := driving_passenger\<rparr>
             = taxi\<lparr>v_passenger := Some rider, v_destination := node_b,
                     v_state := driving_passenger\<rparr>"
    by (simp add: taxi_def new_Vehicle_def)
  from PassengerIntoVehicle_effect [OF h, of rider] h n e show ?thesis
    by simp
qed

text \<open>
  Claim C9, as the code has it.  On a map whose computed longitude and latitude spans
  are not zero, a coordinate \<open>(lon, lat)\<close> held in \<^verbatim>\<open>float\<close> is drawn (as an
  intersection, as the start of a passenger and as the destination of a passenger) at
  the pixel \<open>(int)((lon - min_lon) / (max_lon - min_lon) * width)\<close>,
  \<open>(int)((max_lat - lat) / (max_lat - min_lat) * height)\<close>: difference, quotient and
  product are those of the machine's \<^verbatim>\<open>float\<close> arithmetic, and the cast to \<^verbatim>\<open>int\<close>
  truncates toward zero (the products being in the range of \<^verbatim>\<open>int\<close>); \<open>width\<close> is
  the number of columns of the image and \<open>height\<close> its number of rows.  The
  counterexample is a point whose products are exactly \<open>1/2\<close>: it is drawn at pixel
  \<open>(0, 0)\<close>.  The witness is the point \<open>(7, 1)\<close> of a map of 12 by 4 degrees on an image
  of 108 columns and 4 rows: in \<^verbatim>\<open>float\<close> the quotient \<open>7/12\<close> rounds down, the product
  is just below 63, and the pixel is \<open>(62, 3)\<close>.
\<close>

theorem pixel_truncated:
  assumes "f_sub ar (g_max_lon gr) (g_min_lon gr) \<noteq> 0"
    and "f_sub ar (g_max_lat gr) (g_min_lat gr) \<noteq> 0"
    and "\<bar>product_x ar gr width lon\<bar> < 2147483648"
    and "\<bar>product_y ar gr height lat\<bar> < 2147483648"
    and "f_conv ar (c_x c) = lon" and "f_conv ar (c_y c) = lat"
  shows "DrawIntersections ar gr height width [\<lparr>i_x = lon, i_y = lat\<rparr>] =
       [Some (trunc (product_x ar gr width lon), trunc (product_y ar gr height lat))]
     \<and> map fst (DrawPassengers ar gr height width [p\<lparr>p_start := c\<rparr>]) =
       [Some (trunc (product_x ar gr width lon), trunc (product_y ar gr height lat))]
     \<and> map snd (DrawPassengers ar gr height width [p\<lparr>p_dest := c\<rparr>]) =
       [Some (trunc (product_x ar gr width lon), trunc (product_y ar gr height lat))]"
proof -
  note cc = circle_centre_eq [OF assms(1,2) assms(3,4) [unfolded product_x_def product_y_def]]
  show ?thesis
    using cc assms(5,6)
    by (simp add: DrawIntersections_def DrawPassengers_def Intersection_GetPosition_def
        product_x_def product_y_def Let_def)
qed

theorem pixel_not_exact:
  "DrawIntersections binary32 square 2 2 [\<lparr>i_x = 1, i_y = 3\<rparr>] = [Some (0, 0)]
   \<and> (1 - g_min_lon square) / (g_max_lon square - g_min_lon square) * 2 = 1 / 2
   \<and> (g_max_lat square - 3) / (g_max_lat square - g_min_lat square) * 2 = 1 / 2"
  by (simp add: DrawIntersections_def Intersection_GetPosition_def square_def fdiv_def
      circle_centre_def cast_int_def trunc_def binary32_def ieee_def float_1 float_2 float_4
      float_quarter float_half Let_def)

theorem pixel_truncated_witness:
  "f_sub binary32 (g_max_lon wide) (g_min_lon wide) \<noteq> 0
   \<and> f_sub binary32 (g_max_lat wide) (g_min_lat wide) \<noteq> 0
   \<and> DrawIntersections binary32 wide 4 108 [\<lparr>i_x = 7, i_y = 1\<rparr>] = [Some (62, 3)]"
proof -
  have h: "f_sub binary32 (g_max_lon wide) (g_min_lon wide) \<noteq> 0"
    "f_sub binary32 (g_max_lat wide) (g_min_lat wide) \<noteq> 0"
    by (simp_all add: wide_def binary32_def ieee_def float_12 float_4)
  have a: "\<bar>product_x binary32 wide 108 7\<bar> < 2147483648" "\<bar>product_y binary32 wide 4 1\<bar> < 2147483648"
    by (simp_all add: wide_pixel)
  have c: "f_conv binary32 (c_x \<lparr>c_x = 7, c_y = 1\<rparr>) = 7" "f_conv binary32 (c_y \<lparr>c_x = 7, c_y = 1\<rparr>) = 1"
    by (simp_all add: binary32_def ieee_def float_7 float_1)
  have t: "trunc (product_x binary32 wide 108 7) = 62" "trunc (product_y binary32 wide 4 1) = 3"
    by (simp_all add: wide_pixel trunc_def)
  from pixel_truncated [OF h a c] h t show ?thesis
    by simp
qed

text \<open>
  Claim C3, as the code has it.  In every state the manager reaches by drive ticks,
  \<^verbatim>\<open>AssignPassenger\<close>, \<^verbatim>\<open>PassengerIntoVehicle\<close> and drop-offs, where
  \<^verbatim>\<open>AssignPassenger\<close> is applied only to a vehicle that carries no passenger, every
  vehicle carries a passenger exactly when its state is \<^verbatim>\<open>driving_passenger\<close>.
  Without the restriction the invariant fails: \<^verbatim>\<open>AssignPassenger\<close> sets the state to
  \<^verbatim>\<open>passenger_queued\<close> and leaves the passenger pointer alone, so that assigning a
  pickup to a vehicle that has just taken a passenger aboard leaves it carrying the
  passenger outside \<^verbatim>\<open>driving_passenger\<close>.
\<close>

theorem carrying_iff_driving_invariant:
  assumes "reachable_in_protocol plan s" and "v \<in> set (m_vehicles s)"
  shows "(v_passenger v \<noteq> None) = (v_state v = driving_passenger)"
  using reachable_in_protocol_carrying [OF assms(1)] assms(2)
  by (simp add: carrying_iff_driving_def)

theorem assign_breaks_invariant:
  "reachable two_nodes_plan overbooked
   \<and> v_passenger (hd (m_vehicles overbooked)) \<noteq> None
   \<and> v_state (hd (m_vehicles overbooked)) \<noteq> driving_passenger"
proof -
  have "reachable two_nodes_plan fleet"
    unfolding fleet_def by (rule reachable.constructed)
  then have "reachable two_nodes_plan boarded"
    using fleet_boards by (rule reachable.passenger_into_vehicle)
  then have "reachable two_nodes_plan overbooked"
    using boarded_assigned by (rule reachable.assign_passenger)
  then show ?thesis
    by (simp add: overbooked_def)
qed

theorem carrying_iff_driving_invariant_witness:
  "reachable_in_protocol two_nodes_plan boarded
   \<and> hd (m_vehicles boarded) \<in> set (m_vehicles boarded)
   \<and> v_passenger (hd (m_vehicles boarded)) = Some rider
   \<and> v_state (hd (m_vehicles boarded)) = driving_passenger"
proof -
  have "reachable_in_protocol two_nodes_plan fleet"
    unfolding fleet_def by (rule reachable_in_protocol.p_constructed)
  then have r: "reachable_in_protocol two_nodes_plan boarded"
    using fleet_boards by (rule reachable_in_protocol.p_passenger_into_vehicle)
  have m: "hd (m_vehicles boarded) \<in> set (m_vehicles boarded)"
    by (simp add: boarded_def)
  have p: "v_passenger (hd (m_vehicles boarded)) = Some rider"
    by (simp add: boarded_def)
  from carrying_iff_driving_invariant [OF r m] p r m show ?thesis
    by simp
qed

text \<open>
  Claim C10.  The element access of \<^verbatim>\<open>IncrementalMove\<close> is not always in bounds.
  \<^verbatim>\<open>Drive\<close> runs in a thread of its own and \<^verbatim>\<open>AssignPassenger\<close> takes no lock, so the
  matcher can assign a pickup to a vehicle between the test of its path at the top of
  the loop body and the move.  The evaluation follows the constructed vehicle of the
  small fleet: the loop body routes it and requests a passenger for it; the matcher
  answers with \<^verbatim>\<open>AssignPassenger\<close>, which empties the path and leaves a state that is
  not \<^verbatim>\<open>waiting\<close>; the move that follows reads element 0 of an empty path and throws
  \<^verbatim>\<open>std::out_of_range\<close>.
\<close>

theorem assign_between_check_and_move:
  "IncrementalMove_arg two_nodes_plan True taxi = Some taxi_routed
   \<and> AssignPassenger (fleet\<lparr>m_vehicles := [taxi_routed]\<rparr>) 0 node_b
       = Inr (fleet\<lparr>m_vehicles := [taxi_assigned]\<rparr>)
   \<and> v_path taxi_assigned = []
   \<and> v_state taxi_assigned \<noteq> waiting
   \<and> IncrementalMove_in binary64 (m_distance_per_cycle fleet) taxi_assigned = Inl out_of_range"
  by (simp add: IncrementalMove_arg_def AStarSearch_def two_nodes_plan_def two_nodes_def
      taxi_def taxi_routed_def taxi_assigned_def new_Vehicle_def node_a_def node_b_def
      RequestPassenger_def SetState_def Let_def fleet_eq AssignPassenger_def vector_at_def
      ResetVehicleDestination_eq SetDestination_def ResetPathAndIndex_def
      IncrementalMove_in_def)

section \<open>Serialised callbacks and exact arithmetic\<close>

text \<open>
  When the callbacks of the matcher are taken between whole ticks of \<^verbatim>\<open>Drive\<close>, and
  the planner returns only paths that end at the destination (when the destination is
  a node coordinate), the access is in bounds: in every state the manager reaches, the
  vehicle the loop body passes to \<^verbatim>\<open>IncrementalMove\<close> has a path that is not empty
  and a path index inside the path, and a tick never ends in \<^verbatim>\<open>std::out_of_range\<close>.
\<close>

lemma serialised_access_in_bounds:
  assumes "planner_reaches_goal (m_model s) plan" and "reachable plan s"
    and "v \<in> set (m_vehicles s)"
  shows "(\<forall>v2. IncrementalMove_arg plan (m_ride_matcher s) v = Some v2 \<longrightarrow>
            v_path v2 \<noteq> [] \<and> 0 \<le> v_path_index v2
            \<and> v_path_index v2 < int (length (v_path v2))
            \<and> IncrementalMove (m_distance_per_cycle s) v2 \<noteq> Inl out_of_range)
       \<and> Drive plan s \<noteq> Inl out_of_range"
proof -
  note inv = reachable_in_bounds [OF assms(2,1)]
  with assms(3) have v: "path_in_bounds (m_model s) v" by simp
  have "Drive plan s \<noteq> Inl out_of_range"
    using Drive_loop_in_range [OF assms(1) inv]
    by (auto simp: Drive_def split: sum.splits prod.splits)
  moreover have "\<forall>v2. IncrementalMove_arg plan (m_ride_matcher s) v = Some v2 \<longrightarrow>
            v_path v2 \<noteq> [] \<and> 0 \<le> v_path_index v2
            \<and> v_path_index v2 < int (length (v_path v2))
            \<and> IncrementalMove (m_distance_per_cycle s) v2 \<noteq> Inl out_of_range"
    using move_arg_in_range [OF assms(1) v] IncrementalMove_in_range by blast
  ultimately show ?thesis by simp
qed

lemma serialised_access_in_bounds_example:
  "planner_reaches_goal (m_model fleet) two_nodes_plan \<and> reachable two_nodes_plan fleet
   \<and> taxi \<in> set (m_vehicles fleet)
   \<and> IncrementalMove_arg two_nodes_plan (m_ride_matcher fleet) taxi
       = Some (taxi\<lparr>v_path := [node_a], v_state := no_passenger_queued\<rparr>)
   \<and> v_path_index (taxi\<lparr>v_path := [node_a], v_state := no_passenger_queued\<rparr>)
       < int (length (v_path (taxi\<lparr>v_path := [node_a], v_state := no_passenger_queued\<rparr>)))
   \<and> Drive two_nodes_plan fleet =
       Inr (fleet\<lparr>m_vehicles := [taxi\<lparr>v_position := \<lparr>c_x = 7, c_y = 0\<rparr>, v_path := [node_a],
                                        v_state := no_passenger_queued\<rparr>]\<rparr>,
            [VehicleRequestsPassenger 0])"
proof -
  have pl: "planner_reaches_goal (m_model fleet) two_nodes_plan"
    using two_nodes_plan_reaches_goal by (simp add: fleet_eq)
  have r: "reachable two_nodes_plan fleet"
    unfolding fleet_def by (rule reachable.constructed)
  have m: "taxi \<in> set (m_vehicles fleet)"
    by (simp add: fleet_eq)
  have a: "IncrementalMove_arg two_nodes_plan (m_ride_matcher fleet) taxi
       = Some (taxi\<lparr>v_path := [node_a], v_state := no_passenger_queued\<rparr>)"
    using taxi_move_arg by (simp add: fleet_eq)
  from serialised_access_in_bounds [OF pl r m] a pl r m fleet_drives show ?thesis
    by simp
qed

text \<open>
  In exact arithmetic, when the next path point is farther away than the distance per
  cycle \<open>d \<ge> 0\<close>, the incremental move puts the vehicle on the straight line from its
  position to that point, \<open>d\<close> away from where it was:
  \<open>position + d * (next - position) / |next - position|\<close>.
\<close>

lemma IncrementalMove_towards_next:
  assumes "0 \<le> v_path_index v" and "v_path_index v < int (length (v_path v))"
    and "0 \<le> d" and "d < euclid (v_position v) (v_path v ! nat (v_path_index v))"
  shows "IncrementalMove d v =
     (let pos = v_position v; next = v_path v ! nat (v_path_index v)
      in Inr (SetPosition v
           \<lparr>c_x = c_x pos + d * ((c_x next - c_x pos) / euclid pos next),
              c_y = c_y pos + d * ((c_y next - c_y pos) / euclid pos next)\<rparr>))"
proof -
  let ?pos = "v_position v" and ?next = "v_path v ! nat (v_path_index v)"
  from assms(3,4) have "0 < euclid ?pos ?next" by simp
  then have nz: "c_x ?next - c_x ?pos \<noteq> 0 \<or> c_y ?next - c_y ?pos \<noteq> 0"
    by (auto simp: euclid_def)
  from assms(4) have far: "\<not> euclid ?pos ?next \<le> d" by simp
  have "IncrementalMove d v =
      Inr (SetPosition v
        \<lparr>c_x = c_x ?pos + d * cos (atan2 (c_y ?next - c_y ?pos) (c_x ?next - c_x ?pos)),
           c_y = c_y ?pos + d * sin (atan2 (c_y ?next - c_y ?pos) (c_x ?next - c_x ?pos))\<rparr>)"
    using assms(1,2) far
    by (simp add: IncrementalMove_unfold vector_at_def euclid_def Let_def)
  then show ?thesis
    by (simp add: cos_atan2 [OF nz] sin_atan2 [OF nz] euclid_def Let_def add.commute)
qed

lemma IncrementalMove_towards_next_example:
  "0 \<le> v_path_index cab \<and> v_path_index cab < int (length (v_path cab))
   \<and> (3::real) < euclid (v_position cab) (v_path cab ! nat (v_path_index cab))
   \<and> IncrementalMove 3 cab = Inr (SetPosition cab \<lparr>c_x = 3, c_y = 0\<rparr>)"
proof -
  have i: "0 \<le> v_path_index cab" "v_path_index cab < int (length (v_path cab))"
    by (simp_all add: cab_def new_Vehicle_def)
  have e: "euclid (v_position cab) (v_path cab ! nat (v_path_index cab)) = 10"
    by (simp add: cab_def new_Vehicle_def euclid_def node_a_def node_b_def sqrt100)
  have f: "(3::real) < euclid (v_position cab) (v_path cab ! nat (v_path_index cab))"
    by (simp add: e)
  from IncrementalMove_towards_next [OF i _ f] e i f show ?thesis
    by (simp add: cab_def new_Vehicle_def node_a_def node_b_def Let_def)
qed

end
